theory Spec2Isabelle
  imports Main "HOL-Library.Word"
begin

section \<open>Process configuration (module level of routes.ts and jwt-utils.ts)\<close>

text \<open>
  \<^verbatim>\<open>process.env\<close> is a dictionary from variable names to strings. The imports of
  \<^verbatim>\<open>routes.ts\<close> are evaluated first: the module body of \<^verbatim>\<open>jwt-utils.ts\<close> reads
  \<^verbatim>\<open>JWT_SECRET\<close> and \<^verbatim>\<open>JWT_EXPIRES_IN\<close> with \<^verbatim>\<open>||\<close> fallbacks. Then the module body
  of \<^verbatim>\<open>routes.ts\<close> runs: it constructs the shared client with
  \<^verbatim>\<open>new OpenAI({ apiKey: process.env.OPENAI_API_KEY })\<close>, and then throws when
  \<^verbatim>\<open>SESSION_SECRET\<close> is falsy (absent or the empty string) or has fewer than 32
  characters. A thrown module-level error is the \<open>Inl\<close> branch: the server never starts.
\<close>

type_synonym env = "string \<rightharpoonup> string"

datatype startup_error = OpenAIClientError | SessionSecretRequired | SessionSecretTooShort

record config =
  SESSION_SECRET :: string
  JWT_SECRET :: string
  JWT_EXPIRES_IN :: string

text \<open>JavaScript's \<^verbatim>\<open>a || b\<close> on an optional string: \<^verbatim>\<open>undefined\<close> and \<^verbatim>\<open>''\<close> are falsy.\<close>

definition or_default :: "string option \<Rightarrow> string \<Rightarrow> string" where
  "or_default v d = (case v of None \<Rightarrow> d | Some s \<Rightarrow> (if s = [] then d else s))"

definition DEFAULT_JWT_SECRET :: string where
  "DEFAULT_JWT_SECRET = ''your-super-secret-jwt-key-change-in-production''"

definition load_jwt_utils :: "env \<Rightarrow> string \<times> string" where
  "load_jwt_utils e =
     (or_default (e ''JWT_SECRET'') DEFAULT_JWT_SECRET,
      or_default (e ''JWT_EXPIRES_IN'') ''24h'')"

definition check_session_secret :: "env \<Rightarrow> startup_error + string" where
  "check_session_secret e =
     (case e ''SESSION_SECRET'' of
        None \<Rightarrow> Inl SessionSecretRequired
      | Some s \<Rightarrow>
          if s = [] then Inl SessionSecretRequired
          else if length s < 32 then Inl SessionSecretTooShort
          else Inr s)"

text \<open>
  The constructor of the openai package is a parameter of the model:
  \<open>new_OpenAI apiKey\<close> holds when \<^verbatim>\<open>new OpenAI({ apiKey })\<close> returns a client, and fails
  when the constructor throws. What the package documents: without a key (the option
  \<^verbatim>\<open>undefined\<close> and, as here, no \<^verbatim>\<open>OPENAI_API_KEY\<close> in the environment) it throws.
\<close>

type_synonym openai_constructor = "string option \<Rightarrow> bool"

definition openai_contract :: "openai_constructor \<Rightarrow> bool" where
  "openai_contract new_OpenAI = (\<not> new_OpenAI None)"

definition startup :: "openai_constructor \<Rightarrow> env \<Rightarrow> startup_error + config" where
  "startup new_OpenAI e =
     (let (js, je) = load_jwt_utils e in
      if \<not> new_OpenAI (e ''OPENAI_API_KEY'') then Inl OpenAIClientError
      else case check_session_secret e of
        Inl err \<Rightarrow> Inl err
      | Inr s \<Rightarrow> Inr \<lparr>SESSION_SECRET = s, JWT_SECRET = js, JWT_EXPIRES_IN = je\<rparr>)"

text \<open>
  A constructor for the examples (it wants a non-empty key), and an environment with an
  OpenAI key and a 32-character master secret but no token-signing secret.
\<close>

definition example_new_OpenAI :: openai_constructor where
  "example_new_OpenAI apiKey = (case apiKey of None \<Rightarrow> False | Some k \<Rightarrow> k \<noteq> [])"

definition env_without_jwt_secret :: env where
  "env_without_jwt_secret =
     [''OPENAI_API_KEY'' \<mapsto> ''sk-example-key'',
      ''SESSION_SECRET'' \<mapsto> replicate 32 CHR ''k'']"

section \<open>Credential cipher (encryptApiKey, decryptApiKey in routes.ts)\<close>

type_synonym byte = "8 word"

subsection \<open>Hex strings and the separator\<close>

text \<open>
  \<^verbatim>\<open>buf.toString('hex')\<close> writes two lower-case digits per byte.
  \<^verbatim>\<open>Buffer.from(s, 'hex')\<close> reads digit pairs (either case) and stops at the first pair
  that is not two hex digits, dropping an odd last character. \<^verbatim>\<open>decipher.update(s, 'hex')\<close>
  reads its input the same way, but first throws when \<open>s\<close> has an odd number of
  characters.
\<close>

definition hex_digit :: "nat \<Rightarrow> char" where
  "hex_digit n = ''0123456789abcdef'' ! n"

definition hex_val :: "char \<Rightarrow> nat option" where
  "hex_val c =
     (let k = (of_char c :: nat) in
      if 48 \<le> k \<and> k \<le> 57 then Some (k - 48)
      else if 97 \<le> k \<and> k \<le> 102 then Some (k - 87)
      else if 65 \<le> k \<and> k \<le> 70 then Some (k - 55)
      else None)"

definition toHex_byte :: "byte \<Rightarrow> string" where
  "toHex_byte b = [hex_digit (unat b div 16), hex_digit (unat b mod 16)]"

definition toHex :: "byte list \<Rightarrow> string" where
  "toHex bs = concat (map toHex_byte bs)"

fun fromHex :: "string \<Rightarrow> byte list" where
  "fromHex (a # b # cs) =
     (case hex_val a of
        None \<Rightarrow> []
      | Some h \<Rightarrow>
          (case hex_val b of
             None \<Rightarrow> []
           | Some l \<Rightarrow> word_of_nat (16 * h + l) # fromHex cs))"
| "fromHex cs = []"

text \<open>\<^verbatim>\<open>parts.join(':')\<close> and \<^verbatim>\<open>s.split(':')\<close>; the split of the empty string is \<^verbatim>\<open>['']\<close>.\<close>

fun join_colon :: "string list \<Rightarrow> string" where
  "join_colon [] = []"
| "join_colon [p] = p"
| "join_colon (p # q # ps) = p @ CHR '':'' # join_colon (q # ps)"

fun split_colon :: "string \<Rightarrow> string list" where
  "split_colon [] = [[]]"
| "split_colon (c # cs) =
     (if c = CHR '':'' then [] # split_colon cs
      else (case split_colon cs of
              [] \<Rightarrow> [[c]]
            | p # ps \<Rightarrow> (c # p) # ps))"

subsection \<open>The primitives of Node's crypto module\<close>

text \<open>
  The key derivation, the AEAD and the UTF-8 codec are Node's, not this repository's:
  they are parameters of the model. \<open>gcm_encrypt key iv plaintext\<close> is the cipher text and
  the tag of \<^verbatim>\<open>createCipheriv('aes-256-gcm', key, iv)\<close>, \<open>None\<close> where Node throws.
  \<open>gcm_decrypt key iv tag ciphertext\<close> is the plain text that
  \<^verbatim>\<open>createDecipheriv\<close>, \<^verbatim>\<open>setAuthTag\<close>, \<^verbatim>\<open>update\<close>, \<^verbatim>\<open>final\<close> deliver, \<open>None\<close> where one of
  them throws: an unusable key, iv or tag, or the failed tag check of \<^verbatim>\<open>final\<close>.
\<close>

record crypto_lib =
  scryptSync :: "string \<Rightarrow> byte list \<Rightarrow> nat \<Rightarrow> byte list"
  gcm_encrypt :: "byte list \<Rightarrow> byte list \<Rightarrow> byte list \<Rightarrow> (byte list \<times> byte list) option"
  gcm_decrypt :: "byte list \<Rightarrow> byte list \<Rightarrow> byte list \<Rightarrow> byte list \<Rightarrow> byte list option"
  utf8_encode :: "string \<Rightarrow> byte list"
  utf8_decode :: "byte list \<Rightarrow> string"

text \<open>
  What the library documents: scrypt returns as many bytes as asked for; decoding the
  UTF-8 encoding of a text gives the text back (the texts of the model are the 8-bit
  ones of \<open>string\<close>; a JavaScript string with an unpaired surrogate, which UTF-8 cannot
  carry, is outside it); and with a 32-byte key and a 12-byte iv encryption succeeds and
  decryption under the same key and iv, given the tag, returns the plain text.
\<close>

definition scrypt_contract :: "crypto_lib \<Rightarrow> bool" where
  "scrypt_contract L = (\<forall>secret salt n. length (scryptSync L secret salt n) = n)"

definition utf8_contract :: "crypto_lib \<Rightarrow> bool" where
  "utf8_contract L = (\<forall>s. utf8_decode L (utf8_encode L s) = s)"

definition aead_contract :: "crypto_lib \<Rightarrow> bool" where
  "aead_contract L =
     (\<forall>key iv pt. length key = 32 \<and> length iv = 12 \<longrightarrow>
        (\<exists>ct tag. gcm_encrypt L key iv pt = Some (ct, tag) \<and>
                  gcm_decrypt L key iv tag ct = Some pt))"

subsection \<open>encryptApiKey and decryptApiKey\<close>

text \<open>
  Both functions wrap their body in \<^verbatim>\<open>try\<close>/\<^verbatim>\<open>catch\<close> and rethrow one fixed error each,
  whatever was thrown inside. \<open>salt\<close> and \<open>iv\<close> are the results of
  \<^verbatim>\<open>randomBytes(32)\<close> and \<^verbatim>\<open>randomBytes(12)\<close>.
\<close>

text \<open>
  Thrown inside the \<^verbatim>\<open>try\<close>: \<^verbatim>\<open>Error('Invalid encrypted data format')\<close>, or whatever
  a crypto call throws. Thrown to the caller: \<^verbatim>\<open>Error('Failed to encrypt API key')\<close> and
  \<^verbatim>\<open>Error('Failed to decrypt API key - data may be corrupted or tampered with')\<close>.
\<close>

datatype cipher_exn = InvalidEncryptedDataFormat | CryptoThrew

datatype api_key_error = FailedToEncrypt | FailedToDecrypt

definition encryptApiKey_try ::
  "crypto_lib \<Rightarrow> string \<Rightarrow> byte list \<Rightarrow> byte list \<Rightarrow> string \<Rightarrow> cipher_exn + string" where
  "encryptApiKey_try L secret salt iv apiKey =
     (let key = scryptSync L secret salt 32 in
      case gcm_encrypt L key iv (utf8_encode L apiKey) of
        None \<Rightarrow> Inl CryptoThrew
      | Some (encrypted, authTag) \<Rightarrow>
          Inr (join_colon [toHex salt, toHex iv, toHex encrypted, toHex authTag]))"

definition encryptApiKey ::
  "crypto_lib \<Rightarrow> string \<Rightarrow> byte list \<Rightarrow> byte list \<Rightarrow> string \<Rightarrow> api_key_error + string" where
  "encryptApiKey L secret salt iv apiKey =
     (case encryptApiKey_try L secret salt iv apiKey of
        Inl _ \<Rightarrow> Inl FailedToEncrypt
      | Inr blob \<Rightarrow> Inr blob)"

definition decryptApiKey_try :: "crypto_lib \<Rightarrow> string \<Rightarrow> string \<Rightarrow> cipher_exn + string" where
  "decryptApiKey_try L secret encryptedData =
     (case split_colon encryptedData of
        [saltHex, ivHex, encryptedHex, authTagHex] \<Rightarrow>
          (let salt = fromHex saltHex;
               iv = fromHex ivHex;
               authTag = fromHex authTagHex;
               key = scryptSync L secret salt 32
           in if odd (length encryptedHex) then Inl CryptoThrew
              else case gcm_decrypt L key iv authTag (fromHex encryptedHex) of
                     None \<Rightarrow> Inl CryptoThrew
                   | Some decrypted \<Rightarrow> Inr (utf8_decode L decrypted))
      | _ \<Rightarrow> Inl InvalidEncryptedDataFormat)"

definition decryptApiKey :: "crypto_lib \<Rightarrow> string \<Rightarrow> string \<Rightarrow> api_key_error + string" where
  "decryptApiKey L secret encryptedData =
     (case decryptApiKey_try L secret encryptedData of
        Inl _ \<Rightarrow> Inl FailedToDecrypt
      | Inr apiKey \<Rightarrow> Inr apiKey)"

section \<open>JSON values, accounts and the in-memory store\<close>

text \<open>
  Request and response bodies are JSON values; an object is its list of properties (a
  parsed body has each property once). A \<^verbatim>\<open>Date\<close> is kept as its timestamp.
\<close>

datatype jsonv =
    JNull
  | JBool bool
  | JNum int
  | JStr string
  | JDate nat
  | JArr "jsonv list"
  | JObj "(string \<times> jsonv) list"

definition field :: "jsonv \<Rightarrow> string \<Rightarrow> jsonv option" where
  "field v k = (case v of JObj kvs \<Rightarrow> map_of kvs k | _ \<Rightarrow> None)"

definition is_object :: "jsonv \<Rightarrow> bool" where
  "is_object v = (case v of JObj kvs \<Rightarrow> True | _ \<Rightarrow> False)"

text \<open>\<open>has_key k v\<close>: some object inside \<open>v\<close>, at any depth, has a property named \<open>k\<close>.\<close>

fun has_key :: "string \<Rightarrow> jsonv \<Rightarrow> bool" where
  "has_key k (JObj kvs) = list_ex (\<lambda>kv. fst kv = k \<or> has_key k (snd kv)) kvs"
| "has_key k (JArr vs) = list_ex (has_key k) vs"
| "has_key k v = False"

text \<open>The \<^verbatim>\<open>users\<close> table of the shared schema (type \<^verbatim>\<open>User\<close>).\<close>

record User =
  u_id :: string
  u_username :: string
  u_password :: string
  u_role :: string
  u_status :: string
  u_openaiApiKey :: "string option"
  u_createdAt :: nat
  u_lastLoginAt :: "nat option"

text \<open>A \<^verbatim>\<open>User\<close> object as \<^verbatim>\<open>res.json\<close> sees it: its eight own properties.\<close>

definition user_obj :: "User \<Rightarrow> (string \<times> jsonv) list" where
  "user_obj u =
     [(''id'', JStr (u_id u)),
      (''username'', JStr (u_username u)),
      (''password'', JStr (u_password u)),
      (''role'', JStr (u_role u)),
      (''status'', JStr (u_status u)),
      (''openaiApiKey'', (case u_openaiApiKey u of None \<Rightarrow> JNull | Some k \<Rightarrow> JStr k)),
      (''createdAt'', JDate (u_createdAt u)),
      (''lastLoginAt'', (case u_lastLoginAt u of None \<Rightarrow> JNull | Some t \<Rightarrow> JDate t))]"

text \<open>
  \<^verbatim>\<open>const { password, openaiApiKey, ...sanitizedUser } = user\<close>: every property but the
  two named ones.
\<close>

definition sanitizeUser :: "(string \<times> jsonv) list \<Rightarrow> (string \<times> jsonv) list" where
  "sanitizeUser props = filter (\<lambda>kv. fst kv \<noteq> ''password'' \<and> fst kv \<noteq> ''openaiApiKey'') props"

definition sanitizeUsers :: "(string \<times> jsonv) list list \<Rightarrow> (string \<times> jsonv) list list" where
  "sanitizeUsers us = map sanitizeUser us"

text \<open>\<^verbatim>\<open>InsertUser\<close>: username, password and an optional role.\<close>

record InsertUser =
  i_username :: string
  i_password :: string
  i_role :: "string option"

text \<open>
  \<^verbatim>\<open>Partial<User>\<close>: for each field, \<open>None\<close> when the update object does not have the
  property and \<open>Some v\<close> when it has it with value \<open>v\<close>.
\<close>

record UserUpdates =
  set_id :: "string option"
  set_username :: "string option"
  set_password :: "string option"
  set_role :: "string option"
  set_status :: "string option"
  set_openaiApiKey :: "string option option"
  set_createdAt :: "nat option"
  set_lastLoginAt :: "nat option option"

definition no_updates :: UserUpdates where
  "no_updates =
     \<lparr>set_id = None, set_username = None, set_password = None, set_role = None,
      set_status = None, set_openaiApiKey = None, set_createdAt = None,
      set_lastLoginAt = None\<rparr>"

text \<open>\<^verbatim>\<open>{ ...user, ...updates }\<close>\<close>

definition spread_updates :: "User \<Rightarrow> UserUpdates \<Rightarrow> User" where
  "spread_updates user updates =
     \<lparr>u_id = (case set_id updates of None \<Rightarrow> u_id user | Some v \<Rightarrow> v),
      u_username = (case set_username updates of None \<Rightarrow> u_username user | Some v \<Rightarrow> v),
      u_password = (case set_password updates of None \<Rightarrow> u_password user | Some v \<Rightarrow> v),
      u_role = (case set_role updates of None \<Rightarrow> u_role user | Some v \<Rightarrow> v),
      u_status = (case set_status updates of None \<Rightarrow> u_status user | Some v \<Rightarrow> v),
      u_openaiApiKey =
        (case set_openaiApiKey updates of None \<Rightarrow> u_openaiApiKey user | Some v \<Rightarrow> v),
      u_createdAt = (case set_createdAt updates of None \<Rightarrow> u_createdAt user | Some v \<Rightarrow> v),
      u_lastLoginAt =
        (case set_lastLoginAt updates of None \<Rightarrow> u_lastLoginAt user | Some v \<Rightarrow> v)\<rparr>"

text \<open>
  \<^verbatim>\<open>MemStorage.users\<close> is a JavaScript \<^verbatim>\<open>Map\<close>: it keeps insertion order, and
  \<^verbatim>\<open>set\<close> on a key it has replaces the value in place.
\<close>

record MemStorage =
  users :: "(string \<times> User) list"

fun map_set :: "(string \<times> 'v) list \<Rightarrow> string \<Rightarrow> 'v \<Rightarrow> (string \<times> 'v) list" where
  "map_set [] k v = [(k, v)]"
| "map_set (e # m) k v = (if fst e = k then (k, v) # m else e # map_set m k v)"

definition getUser :: "MemStorage \<Rightarrow> string \<Rightarrow> User option" where
  "getUser st ident = map_of (users st) ident"

definition getUserByUsername :: "MemStorage \<Rightarrow> string \<Rightarrow> User option" where
  "getUserByUsername st username = find (\<lambda>user. u_username user = username) (map snd (users st))"

definition getAllUsers :: "MemStorage \<Rightarrow> User list" where
  "getAllUsers st = map snd (users st)"

text \<open>\<open>uuid\<close> is the result of \<^verbatim>\<open>randomUUID()\<close>, \<open>now\<close> that of \<^verbatim>\<open>new Date()\<close>.\<close>

definition createUser :: "MemStorage \<Rightarrow> string \<Rightarrow> nat \<Rightarrow> InsertUser \<Rightarrow> MemStorage \<times> User" where
  "createUser st uuid now insertUser =
     (let user =
        \<lparr>u_id = uuid,
         u_username = i_username insertUser,
         u_password = i_password insertUser,
         u_role = or_default (i_role insertUser) ''user'',
         u_status = (if i_role insertUser = Some ''admin'' then ''approved'' else ''pending''),
         u_openaiApiKey = None,
         u_createdAt = now,
         u_lastLoginAt = None\<rparr>
      in (st\<lparr>users := map_set (users st) uuid user\<rparr>, user))"

definition updateUser :: "MemStorage \<Rightarrow> string \<Rightarrow> UserUpdates \<Rightarrow> MemStorage \<times> User option" where
  "updateUser st ident updates =
     (case map_of (users st) ident of
        None \<Rightarrow> (st, None)
      | Some user \<Rightarrow>
          (let updatedUser = spread_updates user updates
           in (st\<lparr>users := map_set (users st) ident updatedUser\<rparr>, Some updatedUser)))"

section \<open>Tokens (jwt-utils.ts) and the middleware (auth-middleware.ts, admin-middleware.ts)\<close>

record JWTPayload =
  p_id :: string
  p_username :: string
  p_role :: string
  p_status :: string

record sign_options =
  expiresIn :: string
  issuer :: string
  audience :: string

record verify_options =
  v_issuer :: string
  v_audience :: string

datatype jwt_error = JsonWebTokenError | TokenExpiredError | NotBeforeError

text \<open>
  The jsonwebtoken package is a parameter of the model. \<open>jwt_sign payload secret opts now\<close>
  is the token, \<open>None\<close> where \<^verbatim>\<open>jwt.sign\<close> throws; \<open>jwt_verify token secret opts now\<close> is
  the decoded payload or the error \<^verbatim>\<open>jwt.verify\<close> throws; \<open>timespan\<close> reads a lifetime
  such as \<^verbatim>\<open>'24h'\<close> in the unit in which \<open>now\<close> counts time.
\<close>

record jwt_lib =
  jwt_sign :: "JWTPayload \<Rightarrow> string \<Rightarrow> sign_options \<Rightarrow> nat \<Rightarrow> string option"
  jwt_verify :: "string \<Rightarrow> string \<Rightarrow> verify_options \<Rightarrow> nat \<Rightarrow> jwt_error + JWTPayload"
  timespan :: "string \<Rightarrow> nat option"

text \<open>
  What the package documents: with a readable lifetime signing succeeds, and until the
  lifetime is over the token verifies, under the same secret and the issuer and audience
  it was signed with, to the payload that was signed.
\<close>

definition jwt_contract :: "jwt_lib \<Rightarrow> bool" where
  "jwt_contract J =
     (\<forall>payload secret opts now ttl.
        timespan J (expiresIn opts) = Some ttl \<longrightarrow>
        (\<exists>token. jwt_sign J payload secret opts now = Some token \<and>
           (\<forall>t. now \<le> t \<and> t < now + ttl \<longrightarrow>
              jwt_verify J token secret
                \<lparr>v_issuer = issuer opts, v_audience = audience opts\<rparr> t = Inr payload)))"

definition generateToken :: "jwt_lib \<Rightarrow> config \<Rightarrow> nat \<Rightarrow> User \<Rightarrow> string option" where
  "generateToken J cfg now user =
     (let payload =
        \<lparr>p_id = u_id user, p_username = u_username user,
         p_role = u_role user, p_status = u_status user\<rparr>
      in jwt_sign J payload (JWT_SECRET cfg)
           \<lparr>expiresIn = JWT_EXPIRES_IN cfg, issuer = ''sarvatra-ai'',
            audience = ''sarvatra-ai-users''\<rparr> now)"

text \<open>The \<^verbatim>\<open>catch\<close> of verifyToken turns every thrown error into \<^verbatim>\<open>null\<close>.\<close>

definition verifyToken :: "jwt_lib \<Rightarrow> config \<Rightarrow> nat \<Rightarrow> string \<Rightarrow> JWTPayload option" where
  "verifyToken J cfg now token =
     (case jwt_verify J token (JWT_SECRET cfg)
             \<lparr>v_issuer = ''sarvatra-ai'', v_audience = ''sarvatra-ai-users''\<rparr> now of
        Inl err \<Rightarrow> None
      | Inr decoded \<Rightarrow> Some decoded)"

text \<open>
  \<^verbatim>\<open>authHeader.match(/^Bearer\s+(.+)$/)\<close>: after the word, \<^verbatim>\<open>\s+\<close> takes the longest run
  of white space and gives characters back one at a time until the rest, to the end of
  the string, is one or more characters none of which ends a line. Characters are the
  8-bit ones of \<open>string\<close>.
\<close>

definition is_space :: "char \<Rightarrow> bool" where
  "is_space c = (of_char c \<in> {9, 10, 11, 12, 13, 32, 160 :: nat})"

definition line_terminator :: "char \<Rightarrow> bool" where
  "line_terminator c = (of_char c \<in> {10, 13 :: nat})"

fun capture_rest :: "nat \<Rightarrow> string \<Rightarrow> string option" where
  "capture_rest 0 rest = None"
| "capture_rest (Suc j) rest =
     (let cap = drop (Suc j) rest
      in if cap \<noteq> [] \<and> list_all (\<lambda>c. \<not> line_terminator c) cap then Some cap
         else capture_rest j rest)"

definition extractTokenFromHeader :: "string option \<Rightarrow> string option" where
  "extractTokenFromHeader authHeader =
     (case authHeader of
        None \<Rightarrow> None
      | Some h \<Rightarrow>
          if h = [] then None
          else if take 6 h = ''Bearer''
          then capture_rest (length (takeWhile is_space (drop 6 h))) (drop 6 h)
          else None)"

record response =
  res_status :: nat
  res_body :: jsonv

text \<open>
  A middleware either answers the request (\<open>Inl\<close>) or calls \<^verbatim>\<open>next()\<close> (\<open>Inr\<close>);
  authenticateToken hands the decoded payload on as \<^verbatim>\<open>req.user\<close>.
\<close>

definition authenticateToken ::
  "jwt_lib \<Rightarrow> config \<Rightarrow> nat \<Rightarrow> string option \<Rightarrow> response + JWTPayload" where
  "authenticateToken J cfg now authorization =
     (case extractTokenFromHeader authorization of
        None \<Rightarrow>
          Inl \<lparr>res_status = 401,
               res_body = JObj [(''error'', JStr ''Access denied. No token provided.'')]\<rparr>
      | Some token \<Rightarrow>
          (case verifyToken J cfg now token of
             None \<Rightarrow>
               Inl \<lparr>res_status = 401,
                    res_body = JObj [(''error'', JStr ''Access denied. Invalid token.'')]\<rparr>
           | Some decoded \<Rightarrow>
               if p_status decoded \<noteq> ''approved''
               then Inl \<lparr>res_status = 403,
                         res_body = JObj [(''error'', JStr ''Access denied. Account is not approved.''),
                                          (''status'', JStr (p_status decoded))]\<rparr>
               else Inr decoded))"

definition requireAdmin :: "JWTPayload option \<Rightarrow> response + unit" where
  "requireAdmin req_user =
     (case req_user of
        None \<Rightarrow>
          Inl \<lparr>res_status = 401,
               res_body = JObj [(''error'', JStr ''Access denied. Authentication required.'')]\<rparr>
      | Some user \<Rightarrow>
          if p_role user \<noteq> ''admin''
          then Inl \<lparr>res_status = 403,
                    res_body = JObj [(''error'', JStr ''Access denied. Admin privileges required.''),
                                     (''userRole'', JStr (p_role user))]\<rparr>
          else Inr ())"

section \<open>Request validation (the zod schemas)\<close>

text \<open>
  A schema's \<^verbatim>\<open>parse\<close> throws on a body it rejects (\<open>None\<close>) and returns only the
  properties the schema names: unknown properties are stripped.
\<close>

definition z_string :: "jsonv option \<Rightarrow> string option" where
  "z_string v = (case v of Some (JStr s) \<Rightarrow> Some s | _ \<Rightarrow> None)"

definition special_characters :: string where
  "special_characters = ''!@#$%^&*(),.?'' @ [CHR 0x22] @ '':{}|<>''"

definition strongPassword :: "string \<Rightarrow> bool" where
  "strongPassword password =
     (8 \<le> length password \<and>
      list_ex (\<lambda>c. 65 \<le> (of_char c :: nat) \<and> (of_char c :: nat) \<le> 90) password \<and>
      list_ex (\<lambda>c. 48 \<le> (of_char c :: nat) \<and> (of_char c :: nat) \<le> 57) password \<and>
      list_ex (\<lambda>c. c \<in> set special_characters) password)"

definition loginSchema_parse :: "jsonv \<Rightarrow> (string \<times> string) option" where
  "loginSchema_parse body =
     (if \<not> is_object body then None
      else case z_string (field body ''username'') of
        None \<Rightarrow> None
      | Some username \<Rightarrow>
          (case z_string (field body ''password'') of
             None \<Rightarrow> None
           | Some password \<Rightarrow>
               if 1 \<le> length username \<and> 1 \<le> length password
               then Some (username, password) else None))"

definition publicRegistrationSchema_parse :: "jsonv \<Rightarrow> (string \<times> string) option" where
  "publicRegistrationSchema_parse body =
     (if \<not> is_object body then None
      else case z_string (field body ''username'') of
        None \<Rightarrow> None
      | Some username \<Rightarrow>
          (case z_string (field body ''password'') of
             None \<Rightarrow> None
           | Some password \<Rightarrow>
               if 3 \<le> length username \<and> strongPassword password
               then Some (username, password) else None))"

text \<open>
  adminUserCreationSchema: \<^verbatim>\<open>role: z.enum(['user', 'admin']).optional().default('user')\<close>.
\<close>

definition adminUserCreationSchema_parse :: "jsonv \<Rightarrow> InsertUser option" where
  "adminUserCreationSchema_parse body =
     (if \<not> is_object body then None
      else case z_string (field body ''username'') of
        None \<Rightarrow> None
      | Some username \<Rightarrow>
          (case z_string (field body ''password'') of
             None \<Rightarrow> None
           | Some password \<Rightarrow>
               if \<not> (3 \<le> length username \<and> strongPassword password) then None
               else (case field body ''role'' of
                       None \<Rightarrow>
                         Some \<lparr>i_username = username, i_password = password,
                               i_role = Some ''user''\<rparr>
                     | Some (JStr r) \<Rightarrow>
                         if r = ''user'' \<or> r = ''admin''
                         then Some \<lparr>i_username = username, i_password = password,
                                    i_role = Some r\<rparr>
                         else None
                     | Some _ \<Rightarrow> None)))"

text \<open>
  \<^verbatim>\<open>insertUserSchema.partial()\<close>: username, password and role, each absent or a string.
\<close>

definition z_optional_string :: "jsonv option \<Rightarrow> string option option" where
  "z_optional_string v =
     (case v of None \<Rightarrow> Some None | Some (JStr s) \<Rightarrow> Some (Some s) | Some _ \<Rightarrow> None)"

definition partialInsertUserSchema_parse :: "jsonv \<Rightarrow> UserUpdates option" where
  "partialInsertUserSchema_parse body =
     (if \<not> is_object body then None
      else case z_optional_string (field body ''username'') of
        None \<Rightarrow> None
      | Some un \<Rightarrow>
          (case z_optional_string (field body ''password'') of
             None \<Rightarrow> None
           | Some pw \<Rightarrow>
               (case z_optional_string (field body ''role'') of
                  None \<Rightarrow> None
                | Some ro \<Rightarrow>
                    Some (no_updates\<lparr>set_username := un, set_password := pw, set_role := ro\<rparr>))))"

section \<open>Route handlers (routes.ts)\<close>

text \<open>
  The bcrypt package is a parameter: \<open>bcrypt_hash password rounds\<close> is the hash the call
  returns, \<open>bcrypt_compare password hash\<close> the result of the comparison.
\<close>

record bcrypt_lib =
  bcrypt_hash :: "string \<Rightarrow> nat \<Rightarrow> string"
  bcrypt_compare :: "string \<Rightarrow> string \<Rightarrow> bool"

record request =
  req_authorization :: "string option"
  req_params_id :: string
  req_body :: jsonv

definition json_error :: "nat \<Rightarrow> string \<Rightarrow> response" where
  "json_error code msg = \<lparr>res_status = code, res_body = JObj [(''error'', JStr msg)]\<rparr>"

text \<open>
  POST /api/auth/login. An exception inside the \<^verbatim>\<open>try\<close> (a rejected body, a throwing
  \<^verbatim>\<open>jwt.sign\<close>) is answered with 400 by the \<^verbatim>\<open>catch\<close>; the store keeps what was written
  before.
\<close>

definition login ::
  "bcrypt_lib \<Rightarrow> jwt_lib \<Rightarrow> config \<Rightarrow> nat \<Rightarrow> MemStorage \<Rightarrow> request \<Rightarrow> MemStorage \<times> response" where
  "login B J cfg now st req =
     (case loginSchema_parse (req_body req) of
        None \<Rightarrow> (st, json_error 400 ''Invalid request'')
      | Some (username, password) \<Rightarrow>
          (case getUserByUsername st username of
             None \<Rightarrow> (st, json_error 401 ''Invalid credentials'')
           | Some user \<Rightarrow>
               if \<not> bcrypt_compare B password (u_password user)
               then (st, json_error 401 ''Invalid credentials'')
               else if u_status user \<noteq> ''approved''
               then (st, \<lparr>res_status = 403,
                          res_body = JObj [(''error'', JStr ''Account pending approval''),
                                           (''status'', JStr (u_status user))]\<rparr>)
               else
                 (let st' = fst (updateUser st (u_id user) (no_updates\<lparr>set_lastLoginAt := Some (Some now)\<rparr>))
                  in case generateToken J cfg now user of
                       None \<Rightarrow> (st', json_error 400 ''Invalid request'')
                     | Some token \<Rightarrow>
                         (st', \<lparr>res_status = 200,
                                res_body = JObj [(''user'', JObj (sanitizeUser (user_obj user))),
                                                 (''token'', JStr token),
                                                 (''expiresIn'', JStr ''24h'')]\<rparr>))))"

text \<open>POST /api/auth/register\<close>

definition register ::
  "bcrypt_lib \<Rightarrow> string \<Rightarrow> nat \<Rightarrow> MemStorage \<Rightarrow> request \<Rightarrow> MemStorage \<times> response" where
  "register B uuid now st req =
     (case publicRegistrationSchema_parse (req_body req) of
        None \<Rightarrow> (st, json_error 400 ''Invalid request'')
      | Some (username, password) \<Rightarrow>
          (case getUserByUsername st username of
             Some existingUser \<Rightarrow> (st, json_error 409 ''Username already exists'')
           | None \<Rightarrow>
               (let hashedPassword = bcrypt_hash B password 12;
                    (st', user) = createUser st uuid now
                       \<lparr>i_username = username, i_password = hashedPassword,
                        i_role = Some ''user''\<rparr>
                in (st', \<lparr>res_status = 201,
                          res_body = JObj [(''user'', JObj (sanitizeUser (user_obj user))),
                                           (''message'', JStr ''Account created successfully. Please wait for admin approval.'')]\<rparr>))))"

text \<open>The chain \<^verbatim>\<open>authenticateToken, requireAdmin\<close> in front of every admin route.\<close>

definition admin_only :: "jwt_lib \<Rightarrow> config \<Rightarrow> nat \<Rightarrow> request \<Rightarrow> response + JWTPayload" where
  "admin_only J cfg now req =
     (case authenticateToken J cfg now (req_authorization req) of
        Inl r \<Rightarrow> Inl r
      | Inr user \<Rightarrow>
          (case requireAdmin (Some user) of
             Inl r \<Rightarrow> Inl r
           | Inr u \<Rightarrow> Inr user))"

definition user_response :: "nat \<Rightarrow> User \<Rightarrow> response" where
  "user_response code user =
     \<lparr>res_status = code, res_body = JObj [(''user'', JObj (sanitizeUser (user_obj user)))]\<rparr>"

text \<open>GET /api/admin/users\<close>

definition admin_users_handler :: "MemStorage \<Rightarrow> response" where
  "admin_users_handler st =
     \<lparr>res_status = 200,
      res_body = JObj [(''users'', JArr (map JObj (sanitizeUsers (map user_obj (getAllUsers st)))))]\<rparr>"

definition admin_users :: "jwt_lib \<Rightarrow> config \<Rightarrow> nat \<Rightarrow> MemStorage \<Rightarrow> request \<Rightarrow> MemStorage \<times> response" where
  "admin_users J cfg now st req =
     (case admin_only J cfg now req of
        Inl r \<Rightarrow> (st, r)
      | Inr user \<Rightarrow> (st, admin_users_handler st))"

text \<open>POST /api/admin/create-user\<close>

definition admin_create_user_handler ::
  "bcrypt_lib \<Rightarrow> string \<Rightarrow> nat \<Rightarrow> MemStorage \<Rightarrow> request \<Rightarrow> MemStorage \<times> response" where
  "admin_create_user_handler B uuid now st req =
     (case adminUserCreationSchema_parse (req_body req) of
        None \<Rightarrow> (st, json_error 400 ''Invalid request'')
      | Some userData \<Rightarrow>
          (case getUserByUsername st (i_username userData) of
             Some existingUser \<Rightarrow> (st, json_error 409 ''Username already exists'')
           | None \<Rightarrow>
               (let hashedPassword = bcrypt_hash B (i_password userData) 12;
                    (st', user) = createUser st uuid now (userData\<lparr>i_password := hashedPassword\<rparr>)
                in (st', user_response 201 user))))"

definition admin_create_user ::
  "bcrypt_lib \<Rightarrow> jwt_lib \<Rightarrow> config \<Rightarrow> string \<Rightarrow> nat \<Rightarrow> MemStorage \<Rightarrow> request \<Rightarrow> MemStorage \<times> response" where
  "admin_create_user B J cfg uuid now st req =
     (case admin_only J cfg now req of
        Inl r \<Rightarrow> (st, r)
      | Inr user \<Rightarrow> admin_create_user_handler B uuid now st req)"

text \<open>PUT /api/admin/users/:id/status\<close>

definition admin_update_status_handler :: "MemStorage \<Rightarrow> request \<Rightarrow> MemStorage \<times> response" where
  "admin_update_status_handler st req =
     (case z_string (field (req_body req) ''status'') of
        None \<Rightarrow> (st, json_error 400 ''Invalid status'')
      | Some status \<Rightarrow>
          if status \<notin> set [''approved'', ''rejected'', ''pending'']
          then (st, json_error 400 ''Invalid status'')
          else (case updateUser st (req_params_id req) (no_updates\<lparr>set_status := Some status\<rparr>) of
                  (st', None) \<Rightarrow> (st', json_error 404 ''User not found'')
                | (st', Some user) \<Rightarrow> (st', user_response 200 user)))"

definition admin_update_status ::
  "jwt_lib \<Rightarrow> config \<Rightarrow> nat \<Rightarrow> MemStorage \<Rightarrow> request \<Rightarrow> MemStorage \<times> response" where
  "admin_update_status J cfg now st req =
     (case admin_only J cfg now req of
        Inl r \<Rightarrow> (st, r)
      | Inr user \<Rightarrow> admin_update_status_handler st req)"

text \<open>
  PUT /api/admin/users/:id. \<^verbatim>\<open>if (updates.password)\<close> hashes a password that is present
  and not the empty string.
\<close>

definition admin_update_user_handler ::
  "bcrypt_lib \<Rightarrow> MemStorage \<Rightarrow> request \<Rightarrow> MemStorage \<times> response" where
  "admin_update_user_handler B st req =
     (case partialInsertUserSchema_parse (req_body req) of
        None \<Rightarrow> (st, json_error 400 ''Invalid request'')
      | Some parsed \<Rightarrow>
          (let updates =
             (case set_password parsed of
                None \<Rightarrow> parsed
              | Some pw \<Rightarrow>
                  if pw = [] then parsed
                  else parsed\<lparr>set_password := Some (bcrypt_hash B pw 12)\<rparr>)
           in case updateUser st (req_params_id req) updates of
                (st', None) \<Rightarrow> (st', json_error 404 ''User not found'')
              | (st', Some user) \<Rightarrow> (st', user_response 200 user)))"

definition admin_update_user ::
  "bcrypt_lib \<Rightarrow> jwt_lib \<Rightarrow> config \<Rightarrow> nat \<Rightarrow> MemStorage \<Rightarrow> request \<Rightarrow> MemStorage \<times> response" where
  "admin_update_user B J cfg now st req =
     (case admin_only J cfg now req of
        Inl r \<Rightarrow> (st, r)
      | Inr user \<Rightarrow> admin_update_user_handler B st req)"

text \<open>GET /api/auth/me\<close>

definition auth_me_handler :: "MemStorage \<Rightarrow> JWTPayload option \<Rightarrow> response" where
  "auth_me_handler st req_user =
     (case req_user of
        None \<Rightarrow> json_error 401 ''Authentication required''
      | Some p \<Rightarrow>
          (case getUser st (p_id p) of
             None \<Rightarrow> json_error 404 ''User not found''
           | Some user \<Rightarrow> user_response 200 user))"

definition auth_me :: "jwt_lib \<Rightarrow> config \<Rightarrow> nat \<Rightarrow> MemStorage \<Rightarrow> request \<Rightarrow> MemStorage \<times> response" where
  "auth_me J cfg now st req =
     (case authenticateToken J cfg now (req_authorization req) of
        Inl r \<Rightarrow> (st, r)
      | Inr user \<Rightarrow> (st, auth_me_handler st (Some user)))"

section \<open>Notions used in the statements\<close>

text \<open>
  A response exposes a secret when some object in its body has a property named
  \<^verbatim>\<open>password\<close> or \<^verbatim>\<open>openaiApiKey\<close>.
\<close>

definition exposes_secret :: "response \<Rightarrow> bool" where
  "exposes_secret r = (has_key ''password'' (res_body r) \<or> has_key ''openaiApiKey'' (res_body r))"

text \<open>A request body with the property \<open>k\<close> set to \<open>v\<close>.\<close>

definition with_field :: "jsonv \<Rightarrow> string \<Rightarrow> jsonv \<Rightarrow> jsonv" where
  "with_field body k v =
     (case body of
        JObj kvs \<Rightarrow> JObj ((k, v) # filter (\<lambda>kv. fst kv \<noteq> k) kvs)
      | _ \<Rightarrow> body)"

section \<open>Small libraries for the worked examples\<close>

text \<open>
  Instances of the library parameters on which the models can be run: a cipher that
  shifts every byte by one and tags the message with sixteen copies of a checksum over
  key, iv and plain text, and a codec for 8-bit text.
\<close>

definition example_tag :: "byte list \<Rightarrow> byte list \<Rightarrow> byte list \<Rightarrow> byte list" where
  "example_tag key iv pt = replicate 16 (sum_list key + sum_list iv + sum_list pt)"

definition example_crypto :: crypto_lib where
  "example_crypto =
     \<lparr>scryptSync = (\<lambda>secret salt n. take n (map of_char secret @ salt @ replicate n 0)),
      gcm_encrypt = (\<lambda>key iv pt. Some (map (\<lambda>b. b + 1) pt, example_tag key iv pt)),
      gcm_decrypt = (\<lambda>key iv tag ct.
         if tag = example_tag key iv (map (\<lambda>b. b - 1) ct)
         then Some (map (\<lambda>b. b - 1) ct) else None),
      utf8_encode = map of_char,
      utf8_decode = map (\<lambda>b. char_of (unat b))\<rparr>"

definition example_secret :: string where
  "example_secret = ''0123456789abcdef0123456789abcdef''"

definition example_salt :: "byte list" where
  "example_salt = replicate 32 7"

definition example_iv :: "byte list" where
  "example_iv = replicate 12 9"

text \<open>
  The blob of the key \<^verbatim>\<open>sk-Test42\<close> under this cipher, the same blob without its last
  part, the same blob with the last byte of its tag changed, and the same blob with one
  more digit at the end of its cipher text.
\<close>

definition example_blob :: string where
  "example_blob =
     ''0707070707070707070707070707070707070707070707070707070707070707:090909090909090909090909:746c2e556674753533:41414141414141414141414141414141''"

definition example_truncated_blob :: string where
  "example_truncated_blob =
     ''0707070707070707070707070707070707070707070707070707070707070707:090909090909090909090909:746c2e556674753533''"

definition example_odd_blob :: string where
  "example_odd_blob =
     ''0707070707070707070707070707070707070707070707070707070707070707:090909090909090909090909:746c2e5566747535334:41414141414141414141414141414141''"

definition example_tampered_blob :: string where
  "example_tampered_blob =
     ''0707070707070707070707070707070707070707070707070707070707070707:090909090909090909090909:746c2e556674753533:41414141414141414141414141414140''"

text \<open>
  A token library on which the models can be run: the token carries its fields in the
  clear, each string behind its length in unary, and the secret in the place of the
  signature. Time is counted in hours.
\<close>

definition put_nat :: "nat \<Rightarrow> string" where
  "put_nat n = replicate n CHR ''1'' @ ''.''"

definition put_str :: "string \<Rightarrow> string" where
  "put_str s = put_nat (length s) @ s"

definition get_nat :: "string \<Rightarrow> nat \<times> string" where
  "get_nat t = (length (takeWhile (\<lambda>c. c = CHR ''1'') t), drop 1 (dropWhile (\<lambda>c. c = CHR ''1'') t))"

definition get_str :: "string \<Rightarrow> string \<times> string" where
  "get_str t = (let (n, r) = get_nat t in (take n r, drop n r))"

definition example_timespan :: "string \<Rightarrow> nat option" where
  "example_timespan s = (if s = ''24h'' then Some 24 else if s = ''1h'' then Some 1 else None)"

definition example_sign :: "JWTPayload \<Rightarrow> string \<Rightarrow> sign_options \<Rightarrow> nat \<Rightarrow> string option" where
  "example_sign payload secret opts now =
     (case example_timespan (expiresIn opts) of
        None \<Rightarrow> None
      | Some ttl \<Rightarrow>
          Some (put_str (p_id payload) @ put_str (p_username payload) @
                put_str (p_role payload) @ put_str (p_status payload) @
                put_str (issuer opts) @ put_str (audience opts) @
                put_nat (now + ttl) @ put_str secret))"

definition example_verify :: "string \<Rightarrow> string \<Rightarrow> verify_options \<Rightarrow> nat \<Rightarrow> jwt_error + JWTPayload" where
  "example_verify token secret opts t =
     (let (ident, r1) = get_str token;
          (username, r2) = get_str r1;
          (role, r3) = get_str r2;
          (status, r4) = get_str r3;
          (iss, r5) = get_str r4;
          (aud, r6) = get_str r5;
          (exp, r7) = get_nat r6;
          (sig, r8) = get_str r7
      in if sig \<noteq> secret \<or> r8 \<noteq> [] then Inl JsonWebTokenError
         else if iss \<noteq> v_issuer opts \<or> aud \<noteq> v_audience opts then Inl JsonWebTokenError
         else if exp \<le> t then Inl TokenExpiredError
         else Inr \<lparr>p_id = ident, p_username = username, p_role = role, p_status = status\<rparr>)"

definition example_jwt :: jwt_lib where
  "example_jwt = \<lparr>jwt_sign = example_sign, jwt_verify = example_verify, timespan = example_timespan\<rparr>"

definition example_config :: config where
  "example_config =
     \<lparr>SESSION_SECRET = example_secret, JWT_SECRET = ''signing-secret'', JWT_EXPIRES_IN = ''24h''\<rparr>"

text \<open>A password hash for the examples, and a store with two accounts.\<close>

definition example_bcrypt :: bcrypt_lib where
  "example_bcrypt =
     \<lparr>bcrypt_hash = (\<lambda>password rounds. ''$2b$'' @ rev password),
      bcrypt_compare = (\<lambda>password hash. hash = ''$2b$'' @ rev password)\<rparr>"

definition example_admin :: User where
  "example_admin =
     \<lparr>u_id = ''id-1'', u_username = ''admin'', u_password = ''$2b$321nimda'',
      u_role = ''admin'', u_status = ''approved'', u_openaiApiKey = None,
      u_createdAt = 0, u_lastLoginAt = None\<rparr>"

definition example_bob :: User where
  "example_bob =
     \<lparr>u_id = ''id-2'', u_username = ''bob'', u_password = ''$2b$!1droWssaP'',
      u_role = ''user'', u_status = ''pending'', u_openaiApiKey = Some ''07:09:74:41'',
      u_createdAt = 1, u_lastLoginAt = None\<rparr>"

definition example_store :: MemStorage where
  "example_store = \<lparr>users = [(''id-1'', example_admin), (''id-2'', example_bob)]\<rparr>"

definition example_request :: "jsonv \<Rightarrow> request" where
  "example_request b = \<lparr>req_authorization = None, req_params_id = [], req_body = b\<rparr>"

text \<open>The token the example library issues to the example administrator at time 0.\<close>

definition example_admin_token :: string where
  "example_admin_token =
     ''1111.id-111111.admin11111.admin11111111.approved11111111111.sarvatra-ai11111111111111111.sarvatra-ai-users111111111111111111111111.11111111111111.signing-secret''"

definition example_admin_request :: "jsonv \<Rightarrow> request" where
  "example_admin_request b =
     \<lparr>req_authorization = Some (''Bearer '' @ example_admin_token), req_params_id = ''id-2'',
      req_body = b\<rparr>"

text \<open>The token the example library issues to the pending example user at time 0.\<close>

definition example_bob_token :: string where
  "example_bob_token =
     ''1111.id-2111.bob1111.user1111111.pending11111111111.sarvatra-ai11111111111111111.sarvatra-ai-users111111111111111111111111.11111111111111.signing-secret''"

section \<open>Startup\<close>

text \<open>
  C4, as stated, fails: with an OpenAI key and a 32-character master secret but no
  token-signing secret in the environment the process starts, and signs with the
  built-in default secret.
\<close>

theorem C4_counterexample:
  "env_without_jwt_secret ''JWT_SECRET'' = None \<and>
   startup example_new_OpenAI env_without_jwt_secret =
     Inr \<lparr>SESSION_SECRET = replicate 32 CHR ''k'',
          JWT_SECRET = ''your-super-secret-jwt-key-change-in-production'',
          JWT_EXPIRES_IN = ''24h''\<rparr>"
  by (simp add: env_without_jwt_secret_def startup_def load_jwt_utils_def
      check_session_secret_def or_default_def DEFAULT_JWT_SECRET_def example_new_OpenAI_def)

lemma example_openai_contract: "openai_contract example_new_OpenAI"
  by (simp add: openai_contract_def example_new_OpenAI_def)

text \<open>
  C4, amended: if the master secret is absent or shorter than 32 characters the process
  refuses to start. An absent token-signing secret does not stop it: the process refuses
  to start exactly when the OpenAI client cannot be constructed (as when
  \<^verbatim>\<open>OPENAI_API_KEY\<close> is absent) or the master secret is absent or shorter than 32
  characters; otherwise it starts whether or not a token-signing secret is set, an absent
  one replaced by the built-in default and a non-empty one used as it is.
\<close>

theorem C4_startup_amended:
  "(e ''SESSION_SECRET'' = None \<or> (\<exists>s. e ''SESSION_SECRET'' = Some s \<and> length s < 32)
      \<longrightarrow> (\<exists>err. startup new_OpenAI e = Inl err)) \<and>
   (openai_contract new_OpenAI \<and> e ''OPENAI_API_KEY'' = None
      \<longrightarrow> startup new_OpenAI e = Inl OpenAIClientError) \<and>
   ((\<exists>err. startup new_OpenAI e = Inl err) \<longleftrightarrow>
      (\<not> new_OpenAI (e ''OPENAI_API_KEY'') \<or> e ''SESSION_SECRET'' = None \<or>
       (\<exists>s. e ''SESSION_SECRET'' = Some s \<and> length s < 32))) \<and>
   (\<forall>s. new_OpenAI (e ''OPENAI_API_KEY'') \<and> e ''SESSION_SECRET'' = Some s \<and> 32 \<le> length s \<longrightarrow>
      (\<exists>cfg. startup new_OpenAI e = Inr cfg \<and> SESSION_SECRET cfg = s \<and>
         (e ''JWT_SECRET'' = None \<longrightarrow> JWT_SECRET cfg = DEFAULT_JWT_SECRET) \<and>
         (\<forall>j. e ''JWT_SECRET'' = Some j \<and> j \<noteq> [] \<longrightarrow> JWT_SECRET cfg = j)))"
  by (auto simp: startup_def load_jwt_utils_def check_session_secret_def or_default_def
      openai_contract_def split: option.splits)

theorem C4_startup_amended_witness:
  "startup example_new_OpenAI Map.empty = Inl OpenAIClientError \<and>
   (\<exists>err. startup example_new_OpenAI [''OPENAI_API_KEY'' \<mapsto> ''sk-example-key''] = Inl err) \<and>
   (\<exists>err. startup example_new_OpenAI
      [''OPENAI_API_KEY'' \<mapsto> ''sk-example-key'', ''SESSION_SECRET'' \<mapsto> ''too-short''] = Inl err) \<and>
   (\<exists>cfg. startup example_new_OpenAI env_without_jwt_secret = Inr cfg \<and>
      SESSION_SECRET cfg = replicate 32 CHR ''k'' \<and> JWT_SECRET cfg = DEFAULT_JWT_SECRET)"
  using C4_startup_amended [of Map.empty example_new_OpenAI]
    C4_startup_amended [of "[''OPENAI_API_KEY'' \<mapsto> ''sk-example-key'']" example_new_OpenAI]
    C4_startup_amended [of "[''OPENAI_API_KEY'' \<mapsto> ''sk-example-key'',
      ''SESSION_SECRET'' \<mapsto> ''too-short'']" example_new_OpenAI]
    C4_startup_amended [of env_without_jwt_secret example_new_OpenAI]
    example_openai_contract
  by (simp add: env_without_jwt_secret_def example_new_OpenAI_def)

section \<open>The credential cipher\<close>

lemma hex_digits_all:
  "list_all (\<lambda>n. hex_val (hex_digit n) = Some n \<and> hex_digit n \<noteq> CHR '':'') [0..<16]"
  by code_simp

lemma hex_val_digit: "n < 16 \<Longrightarrow> hex_val (hex_digit n) = Some n"
  using hex_digits_all by (simp add: list_all_iff)

lemma hex_digit_not_colon: "n < 16 \<Longrightarrow> hex_digit n \<noteq> CHR '':''"
  using hex_digits_all by (simp add: list_all_iff)

lemma unat_byte_div16: "unat (b::byte) div 16 < 16"
proof -
  have "unat b < 2 ^ LENGTH(8)" by (rule unsigned_less)
  then show ?thesis by simp
qed

lemma fromHex_toHex: "fromHex (toHex bs) = bs"
  by (induction bs) (simp_all add: toHex_def toHex_byte_def hex_val_digit unat_byte_div16)

lemma toHex_byte_no_colon: "CHR '':'' \<notin> set (toHex_byte b)"
  using hex_digit_not_colon[of "unat b div 16"] hex_digit_not_colon[of "unat b mod 16"]
  by (auto simp: toHex_byte_def unat_byte_div16)

lemma toHex_no_colon: "CHR '':'' \<notin> set (toHex bs)"
  by (induction bs) (simp_all add: toHex_def toHex_byte_no_colon)

lemma split_no_colon: "CHR '':'' \<notin> set p \<Longrightarrow> split_colon p = [p]"
  by (induction p) auto

lemma split_append:
  "CHR '':'' \<notin> set p \<Longrightarrow> split_colon (p @ CHR '':'' # r) = p # split_colon r"
  by (induction p) auto

lemma split_join_hex:
  "split_colon (join_colon [toHex a, toHex b, toHex c, toHex d]) =
     [toHex a, toHex b, toHex c, toHex d]"
  by (simp add: split_append split_no_colon toHex_no_colon)

lemma length_toHex: "length (toHex bs) = 2 * length bs"
  by (induction bs) (simp_all add: toHex_def toHex_byte_def)

lemma decrypt_blob:
  "decryptApiKey_try L S (join_colon [toHex salt, toHex iv, toHex ct, toHex tag]) =
     (case gcm_decrypt L (scryptSync L S salt 32) iv tag ct of
        None \<Rightarrow> Inl CryptoThrew
      | Some pt \<Rightarrow> Inr (utf8_decode L pt))"
  by (simp add: decryptApiKey_try_def split_join_hex fromHex_toHex length_toHex
      del: join_colon.simps)

lemma example_codec: "char_of (unat (of_char c :: byte)) = c"
proof -
  have "(of_char c :: byte) = word_of_nat (of_char c)" by (simp only: of_nat_of_char)
  then have "unat (of_char c :: byte) = of_char c mod 256"
    by (simp only: unat_of_nat) simp
  then show ?thesis by simp
qed

lemma example_utf8_text: "utf8_decode example_crypto (utf8_encode example_crypto K) = K"
  by (induction K) (simp_all add: example_crypto_def example_codec)

lemma example_utf8: "utf8_contract example_crypto"
  by (simp add: utf8_contract_def example_utf8_text)

lemma example_scrypt: "scrypt_contract example_crypto"
  by (auto simp: scrypt_contract_def example_crypto_def)

lemma example_aead: "aead_contract example_crypto"
  by (simp add: aead_contract_def example_crypto_def comp_def)

lemma example_encrypt:
  "encryptApiKey example_crypto example_secret example_salt example_iv ''sk-Test42'' =
     Inr example_blob"
  by code_simp

text \<open>
  C1: for every plain-text key \<open>K\<close>, every salt and every 12-byte iv, encryptApiKey
  returns a blob and decryptApiKey, under the same master secret, returns exactly \<open>K\<close>
  from it. The library is taken at its word: scrypt's output length, AEAD decryption
  inverting encryption, UTF-8 decoding inverting encoding.
\<close>

theorem C1_roundtrip:
  assumes "scrypt_contract L" and "aead_contract L" and "utf8_contract L"
    and "length iv = 12"
  shows "\<exists>blob. encryptApiKey L S salt iv K = Inr blob \<and> decryptApiKey L S blob = Inr K"
proof -
  let ?key = "scryptSync L S salt 32"
  have "length ?key = 32"
    using assms(1) by (simp add: scrypt_contract_def)
  with assms(2,4) obtain ct tag where
    enc: "gcm_encrypt L ?key iv (utf8_encode L K) = Some (ct, tag)" and
    dec: "gcm_decrypt L ?key iv tag ct = Some (utf8_encode L K)"
    unfolding aead_contract_def by blast
  let ?blob = "join_colon [toHex salt, toHex iv, toHex ct, toHex tag]"
  have "encryptApiKey L S salt iv K = Inr ?blob"
    using enc by (simp add: encryptApiKey_def encryptApiKey_try_def del: join_colon.simps)
  moreover have "decryptApiKey L S ?blob = Inr K"
    using dec assms(3)
    by (simp add: decryptApiKey_def decrypt_blob utf8_contract_def del: join_colon.simps)
  ultimately show ?thesis by blast
qed

theorem C1_roundtrip_witness:
  "encryptApiKey example_crypto example_secret example_salt example_iv ''sk-Test42'' =
     Inr example_blob \<and>
   decryptApiKey example_crypto example_secret example_blob = Inr ''sk-Test42''"
proof -
  have "length example_iv = 12" by (simp add: example_iv_def)
  from C1_roundtrip [OF example_scrypt example_aead example_utf8 this,
      of example_secret example_salt "''sk-Test42''"]
  show ?thesis by (auto simp: example_encrypt)
qed

text \<open>
  C3, as stated, fails: a blob with three parts and a four-part blob whose tag check
  fails make decryptApiKey throw the same error, not two distinct ones. The two errors
  differ inside the \<^verbatim>\<open>try\<close> only.
\<close>

theorem C3_counterexample:
  "length (split_colon example_truncated_blob) = 3 \<and>
   decryptApiKey_try example_crypto example_secret example_truncated_blob =
     Inl InvalidEncryptedDataFormat \<and>
   length (split_colon example_tampered_blob) = 4 \<and>
   decryptApiKey_try example_crypto example_secret example_tampered_blob = Inl CryptoThrew \<and>
   decryptApiKey example_crypto example_secret example_truncated_blob = Inl FailedToDecrypt \<and>
   decryptApiKey example_crypto example_secret example_tampered_blob = Inl FailedToDecrypt \<and>
   decryptApiKey example_crypto example_secret example_truncated_blob =
     decryptApiKey example_crypto example_secret example_tampered_blob"
  by code_simp

text \<open>
  C3, amended: decryptApiKey throws one and the same error (``Failed to decrypt API key -
  data may be corrupted or tampered with'') when the blob does not split into exactly
  four parts and when the decipher throws, be it on a cipher text with an odd number of
  hex digits or on a refused key, iv or tag, the failed tag check included; it returns a
  key only for a four-part blob whose cipher text has an even number of digits and whose
  tag check passed, and then the whole decoded plain text.
\<close>

theorem C3_single_error:
  "(length (split_colon blob) \<noteq> 4 \<longrightarrow> decryptApiKey L S blob = Inl FailedToDecrypt) \<and>
   (\<forall>saltHex ivHex encryptedHex authTagHex.
      split_colon blob = [saltHex, ivHex, encryptedHex, authTagHex] \<and>
      (odd (length encryptedHex) \<or>
       gcm_decrypt L (scryptSync L S (fromHex saltHex) 32) (fromHex ivHex)
         (fromHex authTagHex) (fromHex encryptedHex) = None)
      \<longrightarrow> decryptApiKey L S blob = Inl FailedToDecrypt) \<and>
   (\<forall>apiKey. decryptApiKey L S blob = Inr apiKey \<longrightarrow>
      (\<exists>saltHex ivHex encryptedHex authTagHex pt.
         split_colon blob = [saltHex, ivHex, encryptedHex, authTagHex] \<and>
         even (length encryptedHex) \<and>
         gcm_decrypt L (scryptSync L S (fromHex saltHex) 32) (fromHex ivHex)
           (fromHex authTagHex) (fromHex encryptedHex) = Some pt \<and>
         apiKey = utf8_decode L pt)) \<and>
   (\<forall>err. decryptApiKey L S blob = Inl err \<longrightarrow> err = FailedToDecrypt)"
proof (intro conjI)
  show "length (split_colon blob) \<noteq> 4 \<longrightarrow> decryptApiKey L S blob = Inl FailedToDecrypt"
    by (auto simp: decryptApiKey_def decryptApiKey_try_def split: list.splits)
  show "\<forall>saltHex ivHex encryptedHex authTagHex.
      split_colon blob = [saltHex, ivHex, encryptedHex, authTagHex] \<and>
      (odd (length encryptedHex) \<or>
       gcm_decrypt L (scryptSync L S (fromHex saltHex) 32) (fromHex ivHex)
         (fromHex authTagHex) (fromHex encryptedHex) = None)
      \<longrightarrow> decryptApiKey L S blob = Inl FailedToDecrypt"
    by (auto simp: decryptApiKey_def decryptApiKey_try_def)
  show "\<forall>apiKey. decryptApiKey L S blob = Inr apiKey \<longrightarrow>
      (\<exists>saltHex ivHex encryptedHex authTagHex pt.
         split_colon blob = [saltHex, ivHex, encryptedHex, authTagHex] \<and>
         even (length encryptedHex) \<and>
         gcm_decrypt L (scryptSync L S (fromHex saltHex) 32) (fromHex ivHex)
           (fromHex authTagHex) (fromHex encryptedHex) = Some pt \<and>
         apiKey = utf8_decode L pt)"
    by (auto simp: decryptApiKey_def decryptApiKey_try_def
        split: list.splits option.splits sum.splits if_splits)
  show "\<forall>err. decryptApiKey L S blob = Inl err \<longrightarrow> err = FailedToDecrypt"
    by (auto simp: decryptApiKey_def split: sum.splits)
qed

lemma example_truncated_parts: "length (split_colon example_truncated_blob) \<noteq> 4"
  by code_simp

lemma example_tampered_parts:
  "split_colon example_tampered_blob =
     [toHex example_salt, toHex example_iv, ''746c2e556674753533'',
      ''41414141414141414141414141414140''] \<and>
   (odd (length ''746c2e556674753533'') \<or>
    gcm_decrypt example_crypto
      (scryptSync example_crypto example_secret (fromHex (toHex example_salt)) 32)
      (fromHex (toHex example_iv)) (fromHex ''41414141414141414141414141414140'')
      (fromHex ''746c2e556674753533'') = None)"
  by code_simp

lemma example_odd_parts:
  "split_colon example_odd_blob =
     [toHex example_salt, toHex example_iv, ''746c2e5566747535334'',
      ''41414141414141414141414141414141''] \<and>
   (odd (length ''746c2e5566747535334'') \<or>
    gcm_decrypt example_crypto
      (scryptSync example_crypto example_secret (fromHex (toHex example_salt)) 32)
      (fromHex (toHex example_iv)) (fromHex ''41414141414141414141414141414141'')
      (fromHex ''746c2e5566747535334'') = None)"
  by code_simp

theorem C3_single_error_witness:
  "decryptApiKey example_crypto example_secret example_truncated_blob = Inl FailedToDecrypt \<and>
   decryptApiKey example_crypto example_secret example_tampered_blob = Inl FailedToDecrypt \<and>
   decryptApiKey example_crypto example_secret example_odd_blob = Inl FailedToDecrypt"
proof -
  note truncated = C3_single_error [of example_truncated_blob example_crypto example_secret,
      THEN conjunct1, rule_format, OF example_truncated_parts]
  note tampered = C3_single_error [of example_tampered_blob example_crypto example_secret,
      THEN conjunct2, THEN conjunct1, rule_format, OF example_tampered_parts]
  note odd_digits = C3_single_error [of example_odd_blob example_crypto example_secret,
      THEN conjunct2, THEN conjunct1, rule_format, OF example_odd_parts]
  from truncated tampered odd_digits show ?thesis by (intro conjI)
qed

section \<open>The store\<close>

lemma map_of_map_set: "map_of (map_set m k v) = (map_of m)(k \<mapsto> v)"
  by (induction m) (auto simp: fun_eq_iff)

lemma getUser_updateUser:
  "getUser (fst (updateUser st ident updates)) other =
     (if other = ident
      then map_option (\<lambda>user. spread_updates user updates) (getUser st ident)
      else getUser st other)"
  by (simp add: getUser_def updateUser_def map_of_map_set Let_def split: option.splits)

lemma spread_status: "spread_updates user (no_updates\<lparr>set_status := Some s\<rparr>) = user\<lparr>u_status := s\<rparr>"
  by (simp add: spread_updates_def no_updates_def)

lemma spread_lastLoginAt:
  "spread_updates user (no_updates\<lparr>set_lastLoginAt := Some (Some t)\<rparr>) = user\<lparr>u_lastLoginAt := Some t\<rparr>"
  by (simp add: spread_updates_def no_updates_def)

lemma updateUser_frame:
  assumes "getUser st ident = Some user"
  shows "\<exists>st' updated.
      updateUser st ident updates = (st', Some updated) \<and>
      getUser st' ident = Some updated \<and>
      (\<forall>other. other \<noteq> ident \<longrightarrow> getUser st' other = getUser st other) \<and>
      (set_id updates = None \<longrightarrow> u_id updated = u_id user) \<and>
      (set_username updates = None \<longrightarrow> u_username updated = u_username user) \<and>
      (set_password updates = None \<longrightarrow> u_password updated = u_password user) \<and>
      (set_role updates = None \<longrightarrow> u_role updated = u_role user) \<and>
      (set_status updates = None \<longrightarrow> u_status updated = u_status user) \<and>
      (set_openaiApiKey updates = None \<longrightarrow> u_openaiApiKey updated = u_openaiApiKey user) \<and>
      (set_createdAt updates = None \<longrightarrow> u_createdAt updated = u_createdAt user) \<and>
      (set_lastLoginAt updates = None \<longrightarrow> u_lastLoginAt updated = u_lastLoginAt user)"
  using assms
  by (simp add: updateUser_def getUser_def Let_def map_of_map_set spread_updates_def)

lemma status_route_frame:
  assumes "getUser st (req_params_id req) = Some user"
    and "field (req_body req) ''status'' = Some (JStr s)"
    and "s \<in> set [''approved'', ''rejected'', ''pending'']"
  shows "\<exists>st'. admin_update_status_handler st req = (st', user_response 200 (user\<lparr>u_status := s\<rparr>)) \<and>
     getUser st' (req_params_id req) = Some (user\<lparr>u_status := s\<rparr>) \<and>
     (\<forall>other. other \<noteq> req_params_id req \<longrightarrow> getUser st' other = getUser st other)"
proof -
  let ?upd = "no_updates\<lparr>set_status := Some s\<rparr>"
  let ?st = "st\<lparr>users := map_set (users st) (req_params_id req) (user\<lparr>u_status := s\<rparr>)\<rparr>"
  have run: "updateUser st (req_params_id req) ?upd = (?st, Some (user\<lparr>u_status := s\<rparr>))"
    using assms(1) by (simp add: updateUser_def getUser_def Let_def spread_status)
  then have st: "?st = fst (updateUser st (req_params_id req) ?upd)" by simp
  have "admin_update_status_handler st req = (?st, user_response 200 (user\<lparr>u_status := s\<rparr>))"
    using assms(2,3) by (simp add: admin_update_status_handler_def z_string_def run)
  moreover have "getUser ?st (req_params_id req) = Some (user\<lparr>u_status := s\<rparr>)"
    unfolding st using assms(1) by (simp add: getUser_updateUser spread_status)
  moreover have "\<forall>other. other \<noteq> req_params_id req \<longrightarrow> getUser ?st other = getUser st other"
    unfolding st by (simp add: getUser_updateUser)
  ultimately show ?thesis by (intro exI [of _ ?st] conjI)
qed

lemma login_frame:
  assumes "loginSchema_parse (req_body req) = Some (name, pw)"
    and "getUserByUsername st name = Some user"
    and "bcrypt_compare B pw (u_password user)"
    and "u_status user = ''approved''"
    and "getUser st (u_id user) = Some user"
  shows "getUser (fst (login B J cfg now st req)) (u_id user) = Some (user\<lparr>u_lastLoginAt := Some now\<rparr>) \<and>
     (\<forall>other. other \<noteq> u_id user \<longrightarrow>
        getUser (fst (login B J cfg now st req)) other = getUser st other)"
proof -
  let ?upd = "no_updates\<lparr>set_lastLoginAt := Some (Some now)\<rparr>"
  have "fst (login B J cfg now st req) = fst (updateUser st (u_id user) ?upd)"
    using assms(1-4) by (simp add: login_def Let_def split: option.splits)
  then show ?thesis
    using assms(5) by (simp add: getUser_updateUser spread_lastLoginAt)
qed

text \<open>
  C10: for an existing user and any update object, updateUser stores and returns a user
  in which every field absent from the update object is unchanged, and leaves every
  other account as it was. In particular the status update of the admin route stores the
  account with its status changed and nothing else (the password hash and the credential
  blob stay), and a successful login stores the account with lastLoginAt changed and
  nothing else.
\<close>

theorem C10_updateUser_frame:
  assumes "getUser st ident = Some user"
  shows "(\<exists>st' updated.
      updateUser st ident updates = (st', Some updated) \<and>
      getUser st' ident = Some updated \<and>
      (\<forall>other. other \<noteq> ident \<longrightarrow> getUser st' other = getUser st other) \<and>
      (set_id updates = None \<longrightarrow> u_id updated = u_id user) \<and>
      (set_username updates = None \<longrightarrow> u_username updated = u_username user) \<and>
      (set_password updates = None \<longrightarrow> u_password updated = u_password user) \<and>
      (set_role updates = None \<longrightarrow> u_role updated = u_role user) \<and>
      (set_status updates = None \<longrightarrow> u_status updated = u_status user) \<and>
      (set_openaiApiKey updates = None \<longrightarrow> u_openaiApiKey updated = u_openaiApiKey user) \<and>
      (set_createdAt updates = None \<longrightarrow> u_createdAt updated = u_createdAt user) \<and>
      (set_lastLoginAt updates = None \<longrightarrow> u_lastLoginAt updated = u_lastLoginAt user)) \<and>
    (\<forall>req s.
       req_params_id req = ident \<and> field (req_body req) ''status'' = Some (JStr s) \<and>
       s \<in> set [''approved'', ''rejected'', ''pending''] \<longrightarrow>
       (\<exists>st'. admin_update_status_handler st req = (st', user_response 200 (user\<lparr>u_status := s\<rparr>)) \<and>
              getUser st' ident = Some (user\<lparr>u_status := s\<rparr>) \<and>
              (\<forall>other. other \<noteq> ident \<longrightarrow> getUser st' other = getUser st other))) \<and>
    (\<forall>B J cfg now req name pw.
       loginSchema_parse (req_body req) = Some (name, pw) \<and>
       getUserByUsername st name = Some user \<and> u_id user = ident \<and>
       bcrypt_compare B pw (u_password user) \<and> u_status user = ''approved'' \<longrightarrow>
       getUser (fst (login B J cfg now st req)) ident = Some (user\<lparr>u_lastLoginAt := Some now\<rparr>) \<and>
       (\<forall>other. other \<noteq> ident \<longrightarrow>
          getUser (fst (login B J cfg now st req)) other = getUser st other))"
proof -
  note frame = updateUser_frame [OF assms, of updates]
  have status: "\<forall>req s.
       req_params_id req = ident \<and> field (req_body req) ''status'' = Some (JStr s) \<and>
       s \<in> set [''approved'', ''rejected'', ''pending''] \<longrightarrow>
       (\<exists>st'. admin_update_status_handler st req = (st', user_response 200 (user\<lparr>u_status := s\<rparr>)) \<and>
              getUser st' ident = Some (user\<lparr>u_status := s\<rparr>) \<and>
              (\<forall>other. other \<noteq> ident \<longrightarrow> getUser st' other = getUser st other))"
  proof (intro allI impI)
    fix req :: request and s :: string
    assume h: "req_params_id req = ident \<and> field (req_body req) ''status'' = Some (JStr s) \<and>
       s \<in> set [''approved'', ''rejected'', ''pending'']"
    then have "getUser st (req_params_id req) = Some user" using assms by simp
    from status_route_frame [OF this] h
    show "\<exists>st'. admin_update_status_handler st req = (st', user_response 200 (user\<lparr>u_status := s\<rparr>)) \<and>
              getUser st' ident = Some (user\<lparr>u_status := s\<rparr>) \<and>
              (\<forall>other. other \<noteq> ident \<longrightarrow> getUser st' other = getUser st other)"
      by simp
  qed
  have last_login: "\<forall>B J cfg now req name pw.
       loginSchema_parse (req_body req) = Some (name, pw) \<and>
       getUserByUsername st name = Some user \<and> u_id user = ident \<and>
       bcrypt_compare B pw (u_password user) \<and> u_status user = ''approved'' \<longrightarrow>
       getUser (fst (login B J cfg now st req)) ident = Some (user\<lparr>u_lastLoginAt := Some now\<rparr>) \<and>
       (\<forall>other. other \<noteq> ident \<longrightarrow>
          getUser (fst (login B J cfg now st req)) other = getUser st other)"
  proof (intro allI impI)
    fix B :: bcrypt_lib and J :: jwt_lib and cfg :: config and now :: nat
      and req :: request and name pw :: string
    assume h: "loginSchema_parse (req_body req) = Some (name, pw) \<and>
       getUserByUsername st name = Some user \<and> u_id user = ident \<and>
       bcrypt_compare B pw (u_password user) \<and> u_status user = ''approved''"
    then have "getUser st (u_id user) = Some user" using assms by simp
    with h login_frame [of req name pw st user B J cfg now]
    show "getUser (fst (login B J cfg now st req)) ident = Some (user\<lparr>u_lastLoginAt := Some now\<rparr>) \<and>
       (\<forall>other. other \<noteq> ident \<longrightarrow>
          getUser (fst (login B J cfg now st req)) other = getUser st other)"
      by simp
  qed
  show ?thesis by (rule conjI [OF frame conjI [OF status last_login]])
qed

lemma example_getUser_bob: "getUser example_store ''id-2'' = Some example_bob"
  by (simp add: getUser_def example_store_def)

theorem C10_updateUser_frame_witness:
  "(\<exists>st' updated.
      updateUser example_store ''id-2'' (no_updates\<lparr>set_status := Some ''approved''\<rparr>) =
        (st', Some updated) \<and>
      getUser st' ''id-2'' = Some updated \<and>
      getUser st' ''id-1'' = Some example_admin \<and>
      u_password updated = ''$2b$!1droWssaP'' \<and>
      u_openaiApiKey updated = Some ''07:09:74:41'') \<and>
   (\<exists>st'.
      admin_update_status_handler example_store
        (example_admin_request (JObj [(''status'', JStr ''approved'')])) =
        (st', user_response 200 (example_bob\<lparr>u_status := ''approved''\<rparr>)) \<and>
      getUser st' ''id-2'' = Some (example_bob\<lparr>u_status := ''approved''\<rparr>) \<and>
      getUser st' ''id-1'' = Some example_admin)"
proof -
  note inst = C10_updateUser_frame [OF example_getUser_bob,
      of "no_updates\<lparr>set_status := Some ''approved''\<rparr>"]
  have admin: "getUser example_store ''id-1'' = Some example_admin"
    by (simp add: getUser_def example_store_def)
  from inst [THEN conjunct1] obtain st' updated where
    run: "updateUser example_store ''id-2'' (no_updates\<lparr>set_status := Some ''approved''\<rparr>) =
        (st', Some updated)"
    and stored: "getUser st' ''id-2'' = Some updated"
    and others: "\<forall>other. other \<noteq> ''id-2'' \<longrightarrow> getUser st' other = getUser example_store other"
    and pw: "set_password (no_updates\<lparr>set_status := Some ''approved''\<rparr>) = None \<longrightarrow>
        u_password updated = u_password example_bob"
    and key: "set_openaiApiKey (no_updates\<lparr>set_status := Some ''approved''\<rparr>) = None \<longrightarrow>
        u_openaiApiKey updated = u_openaiApiKey example_bob"
    by (elim exE conjE)
  from others admin have "getUser st' ''id-1'' = Some example_admin" by simp
  moreover from pw have "u_password updated = ''$2b$!1droWssaP''"
    by (simp add: no_updates_def example_bob_def)
  moreover from key have "u_openaiApiKey updated = Some ''07:09:74:41''"
    by (simp add: no_updates_def example_bob_def)
  ultimately have one: "\<exists>st' updated.
      updateUser example_store ''id-2'' (no_updates\<lparr>set_status := Some ''approved''\<rparr>) =
        (st', Some updated) \<and>
      getUser st' ''id-2'' = Some updated \<and>
      getUser st' ''id-1'' = Some example_admin \<and>
      u_password updated = ''$2b$!1droWssaP'' \<and>
      u_openaiApiKey updated = Some ''07:09:74:41''"
    using run stored by (intro exI [of _ st'] exI [of _ updated] conjI)
  have req: "req_params_id (example_admin_request (JObj [(''status'', JStr ''approved'')])) = ''id-2'' \<and>
      field (req_body (example_admin_request (JObj [(''status'', JStr ''approved'')]))) ''status'' =
        Some (JStr ''approved'') \<and>
      ''approved'' \<in> set [''approved'', ''rejected'', ''pending'']"
    by (simp add: example_admin_request_def field_def)
  from inst [THEN conjunct2, THEN conjunct1, rule_format, OF req]
  obtain st2 where
    h: "admin_update_status_handler example_store
        (example_admin_request (JObj [(''status'', JStr ''approved'')])) =
        (st2, user_response 200 (example_bob\<lparr>u_status := ''approved''\<rparr>))"
       "getUser st2 ''id-2'' = Some (example_bob\<lparr>u_status := ''approved''\<rparr>)"
       "\<forall>other. other \<noteq> ''id-2'' \<longrightarrow> getUser st2 other = getUser example_store other"
    by (elim exE conjE)
  from h(3) admin have "getUser st2 ''id-1'' = Some example_admin" by simp
  with h(1,2) have two: "\<exists>st'.
      admin_update_status_handler example_store
        (example_admin_request (JObj [(''status'', JStr ''approved'')])) =
        (st', user_response 200 (example_bob\<lparr>u_status := ''approved''\<rparr>)) \<and>
      getUser st' ''id-2'' = Some (example_bob\<lparr>u_status := ''approved''\<rparr>) \<and>
      getUser st' ''id-1'' = Some example_admin"
    by (intro exI [of _ st2] conjI)
  from one two show ?thesis by (rule conjI)
qed

section \<open>Login and registration\<close>



lemma map_of_filter_other: "k' \<noteq> k \<Longrightarrow> map_of (filter (\<lambda>kv. fst kv \<noteq> k) kvs) k' = map_of kvs k'"
  by (induction kvs) auto

lemma field_with_field: "k' \<noteq> k \<Longrightarrow> field (with_field body k v) k' = field body k'"
  by (cases body) (simp_all add: field_def with_field_def map_of_filter_other)

lemma is_object_with_field: "is_object (with_field body k v) = is_object body"
  by (cases body) (simp_all add: is_object_def with_field_def)

lemma registration_parse_ignores_role:
  "publicRegistrationSchema_parse (with_field body ''role'' v) = publicRegistrationSchema_parse body"
  by (simp add: publicRegistrationSchema_parse_def field_with_field is_object_with_field
      cong: option.case_cong if_cong)

lemma getUser_createUser:
  "getUser (fst (createUser st uuid now ins)) uuid = Some (snd (createUser st uuid now ins))"
  by (simp add: createUser_def getUser_def map_of_map_set Let_def)

text \<open>
  C5: a registration request with a valid username and password is answered 409 when
  the username is taken, and otherwise creates an account with role \<open>user\<close> and status
  \<open>pending\<close>; a role supplied in the body changes nothing, whatever its value.
\<close>

theorem C5_registration_role:
  assumes "publicRegistrationSchema_parse (req_body req) = Some (username, password)"
  shows "(case getUserByUsername st username of
            Some existing \<Rightarrow>
              register B uuid now st req = (st, json_error 409 ''Username already exists'')
          | None \<Rightarrow>
              (\<exists>st' user.
                 register B uuid now st req =
                   (st', \<lparr>res_status = 201,
                          res_body = JObj [(''user'', JObj (sanitizeUser (user_obj user))),
                                           (''message'', JStr ''Account created successfully. Please wait for admin approval.'')]\<rparr>) \<and>
                 getUser st' uuid = Some user \<and>
                 u_username user = username \<and>
                 u_role user = ''user'' \<and>
                 u_status user = ''pending'')) \<and>
         (\<forall>v. register B uuid now st (req\<lparr>req_body := with_field (req_body req) ''role'' v\<rparr>) =
               register B uuid now st req)"
proof -
  have ignore: "\<forall>v. register B uuid now st (req\<lparr>req_body := with_field (req_body req) ''role'' v\<rparr>) =
      register B uuid now st req"
    by (simp add: register_def registration_parse_ignores_role)
  show ?thesis
  proof (cases "getUserByUsername st username")
    case None
    let ?ins = "\<lparr>i_username = username, i_password = bcrypt_hash B password 12, i_role = Some ''user''\<rparr>"
    let ?st = "fst (createUser st uuid now ?ins)"
    let ?user = "snd (createUser st uuid now ?ins)"
    have "register B uuid now st req =
        (?st, \<lparr>res_status = 201,
               res_body = JObj [(''user'', JObj (sanitizeUser (user_obj ?user))),
                                (''message'', JStr ''Account created successfully. Please wait for admin approval.'')]\<rparr>)"
      using assms None by (simp add: register_def Let_def split_beta)
    moreover have "getUser ?st uuid = Some ?user" by (rule getUser_createUser)
    moreover have "u_username ?user = username \<and> u_role ?user = ''user'' \<and> u_status ?user = ''pending''"
      by (simp add: createUser_def Let_def or_default_def)
    ultimately have "\<exists>st' user.
        register B uuid now st req =
          (st', \<lparr>res_status = 201,
                 res_body = JObj [(''user'', JObj (sanitizeUser (user_obj user))),
                                  (''message'', JStr ''Account created successfully. Please wait for admin approval.'')]\<rparr>) \<and>
        getUser st' uuid = Some user \<and> u_username user = username \<and>
        u_role user = ''user'' \<and> u_status user = ''pending''"
      by blast
    with None ignore show ?thesis by simp
  next
    case (Some existing)
    then show ?thesis using assms ignore by (simp add: register_def)
  qed
qed

lemma example_registration_parse:
  "publicRegistrationSchema_parse
     (req_body (example_request (JObj [(''username'', JStr ''alice''),
        (''password'', JStr ''Str0ng!pass''), (''role'', JStr ''admin'')]))) =
     Some (''alice'', ''Str0ng!pass'')"
  by code_simp

lemma example_alice_free: "getUserByUsername example_store ''alice'' = None"
  by code_simp

theorem C5_registration_role_witness:
  "\<exists>st' user.
     register example_bcrypt ''id-3'' 7 example_store
       (example_request (JObj [(''username'', JStr ''alice''),
          (''password'', JStr ''Str0ng!pass''), (''role'', JStr ''admin'')])) =
       (st', \<lparr>res_status = 201,
              res_body = JObj [(''user'', JObj (sanitizeUser (user_obj user))),
                               (''message'', JStr ''Account created successfully. Please wait for admin approval.'')]\<rparr>) \<and>
     getUser st' ''id-3'' = Some user \<and>
     u_username user = ''alice'' \<and> u_role user = ''user'' \<and> u_status user = ''pending''"
  using C5_registration_role [OF example_registration_parse,
      where st = example_store and B = example_bcrypt and uuid = "''id-3''" and now = 7]
  by (simp add: example_alice_free)

section \<open>Account creation by an administrator\<close>

lemma admin_only_Inr:
  "admin_only J cfg now req = Inr p \<Longrightarrow>
     authenticateToken J cfg now (req_authorization req) = Inr p \<and>
     p_role p = ''admin'' \<and> p_status p = ''approved''"
  by (auto simp: admin_only_def requireAdmin_def authenticateToken_def
      split: sum.splits option.splits if_splits)

lemma example_admin_token_issued:
  "generateToken example_jwt example_config 0 example_admin = Some example_admin_token"
  by code_simp

lemma example_admin_passes:
  "admin_only example_jwt example_config 3 (example_admin_request b) =
     Inr \<lparr>p_id = ''id-1'', p_username = ''admin'', p_role = ''admin'', p_status = ''approved''\<rparr>"
  by code_simp

text \<open>
  C8: a create-user request that passes the admin gate (its sender is an approved
  administrator), with a valid body and a free username, creates the account at once:
  with role \<open>admin\<close> in the body the account has role \<open>admin\<close> and status \<open>approved\<close>;
  with any other accepted body (role \<open>user\<close> or no role) it has role \<open>user\<close> and status
  \<open>pending\<close>.
\<close>

theorem C8_admin_created_status:
  assumes "admin_only J cfg now req = Inr admin"
    and "adminUserCreationSchema_parse (req_body req) = Some userData"
    and "getUserByUsername st (i_username userData) = None"
  shows "p_role admin = ''admin'' \<and> p_status admin = ''approved'' \<and>
    (\<exists>st' user.
       admin_create_user B J cfg uuid now st req = (st', user_response 201 user) \<and>
       getUser st' uuid = Some user \<and>
       u_username user = i_username userData \<and>
       (field (req_body req) ''role'' = Some (JStr ''admin'') \<longrightarrow>
          u_role user = ''admin'' \<and> u_status user = ''approved'') \<and>
       (field (req_body req) ''role'' \<noteq> Some (JStr ''admin'') \<longrightarrow>
          u_role user = ''user'' \<and> u_status user = ''pending''))"
proof -
  let ?ins = "userData\<lparr>i_password := bcrypt_hash B (i_password userData) 12\<rparr>"
  let ?st = "fst (createUser st uuid now ?ins)"
  let ?user = "snd (createUser st uuid now ?ins)"
  have who: "p_role admin = ''admin'' \<and> p_status admin = ''approved''"
    using admin_only_Inr [OF assms(1)] by simp
  have run: "admin_create_user B J cfg uuid now st req = (?st, user_response 201 ?user)"
    using assms by (simp add: admin_create_user_def admin_create_user_handler_def Let_def split_beta)
  have stored: "getUser ?st uuid = Some ?user" by (rule getUser_createUser)
  have role: "i_role userData =
      (if field (req_body req) ''role'' = Some (JStr ''admin'') then Some ''admin'' else Some ''user'')"
    using assms(2)
    by (auto simp: adminUserCreationSchema_parse_def
        split: if_splits option.splits jsonv.splits)
  have name: "u_username ?user = i_username userData"
    by (simp add: createUser_def Let_def)
  have is_admin: "field (req_body req) ''role'' = Some (JStr ''admin'') \<longrightarrow>
      u_role ?user = ''admin'' \<and> u_status ?user = ''approved''"
    using role by (simp add: createUser_def Let_def or_default_def)
  have is_user: "field (req_body req) ''role'' \<noteq> Some (JStr ''admin'') \<longrightarrow>
      u_role ?user = ''user'' \<and> u_status ?user = ''pending''"
    using role by (simp add: createUser_def Let_def or_default_def)
  have "\<exists>st' user.
       admin_create_user B J cfg uuid now st req = (st', user_response 201 user) \<and>
       getUser st' uuid = Some user \<and>
       u_username user = i_username userData \<and>
       (field (req_body req) ''role'' = Some (JStr ''admin'') \<longrightarrow>
          u_role user = ''admin'' \<and> u_status user = ''approved'') \<and>
       (field (req_body req) ''role'' \<noteq> Some (JStr ''admin'') \<longrightarrow>
          u_role user = ''user'' \<and> u_status user = ''pending'')"
    apply (rule exI [of _ ?st])
    apply (rule exI [of _ ?user])
    apply (intro conjI)
        apply (rule run)
       apply (rule stored)
      apply (rule name)
     apply (rule is_admin)
    apply (rule is_user)
    done
  with who show ?thesis by simp
qed

lemma example_admin_body:
  "adminUserCreationSchema_parse (req_body (example_admin_request
     (JObj [(''username'', JStr ''carol''), (''password'', JStr ''Adm1n!pass''), (''role'', JStr ''admin'')]))) =
   Some \<lparr>i_username = ''carol'', i_password = ''Adm1n!pass'', i_role = Some ''admin''\<rparr>"
  by code_simp

lemma example_user_body:
  "adminUserCreationSchema_parse (req_body (example_admin_request
     (JObj [(''username'', JStr ''carol''), (''password'', JStr ''Adm1n!pass'')]))) =
   Some \<lparr>i_username = ''carol'', i_password = ''Adm1n!pass'', i_role = Some ''user''\<rparr>"
  by code_simp

lemma example_carol_free: "getUserByUsername example_store ''carol'' = None"
  by code_simp

theorem C8_admin_created_status_witness:
  "(\<exists>st' user.
      admin_create_user example_bcrypt example_jwt example_config ''id-3'' 3 example_store
        (example_admin_request (JObj [(''username'', JStr ''carol''),
           (''password'', JStr ''Adm1n!pass''), (''role'', JStr ''admin'')])) =
        (st', user_response 201 user) \<and>
      getUser st' ''id-3'' = Some user \<and> u_role user = ''admin'' \<and> u_status user = ''approved'') \<and>
   (\<exists>st' user.
      admin_create_user example_bcrypt example_jwt example_config ''id-3'' 3 example_store
        (example_admin_request (JObj [(''username'', JStr ''carol''),
           (''password'', JStr ''Adm1n!pass'')])) =
        (st', user_response 201 user) \<and>
      getUser st' ''id-3'' = Some user \<and> u_role user = ''user'' \<and> u_status user = ''pending'')"
proof -
  have free: "getUserByUsername example_store
      (i_username \<lparr>i_username = ''carol'', i_password = ''Adm1n!pass'', i_role = Some ''admin''\<rparr>) = None"
    by (simp add: example_carol_free)
  have free': "getUserByUsername example_store
      (i_username \<lparr>i_username = ''carol'', i_password = ''Adm1n!pass'', i_role = Some ''user''\<rparr>) = None"
    by (simp add: example_carol_free)
  have a: "field (req_body (example_admin_request (JObj [(''username'', JStr ''carol''),
           (''password'', JStr ''Adm1n!pass''), (''role'', JStr ''admin'')]))) ''role'' = Some (JStr ''admin'')"
    by (simp add: example_admin_request_def field_def)
  have b: "field (req_body (example_admin_request (JObj [(''username'', JStr ''carol''),
           (''password'', JStr ''Adm1n!pass'')]))) ''role'' \<noteq> Some (JStr ''admin'')"
    by (simp add: example_admin_request_def field_def)
  from C8_admin_created_status [OF example_admin_passes example_admin_body free,
      where B = example_bcrypt and uuid = "''id-3''"] a
  have one: "\<exists>st' user.
      admin_create_user example_bcrypt example_jwt example_config ''id-3'' 3 example_store
        (example_admin_request (JObj [(''username'', JStr ''carol''),
           (''password'', JStr ''Adm1n!pass''), (''role'', JStr ''admin'')])) =
        (st', user_response 201 user) \<and>
      getUser st' ''id-3'' = Some user \<and> u_role user = ''admin'' \<and> u_status user = ''approved''"
    by (elim conjE exE) (intro exI conjI, assumption+, simp_all)
  from C8_admin_created_status [OF example_admin_passes example_user_body free',
      where B = example_bcrypt and uuid = "''id-3''"] b
  have two: "\<exists>st' user.
      admin_create_user example_bcrypt example_jwt example_config ''id-3'' 3 example_store
        (example_admin_request (JObj [(''username'', JStr ''carol''),
           (''password'', JStr ''Adm1n!pass'')])) =
        (st', user_response 201 user) \<and>
      getUser st' ''id-3'' = Some user \<and> u_role user = ''user'' \<and> u_status user = ''pending''"
    by (elim conjE exE) (intro exI conjI, assumption+, simp_all)
  from one two show ?thesis by (rule conjI)
qed

section \<open>Sanitised responses\<close>

lemma sanitized_props:
  "sanitizeUser (user_obj u) =
     [(''id'', JStr (u_id u)), (''username'', JStr (u_username u)), (''role'', JStr (u_role u)),
      (''status'', JStr (u_status u)), (''createdAt'', JDate (u_createdAt u)),
      (''lastLoginAt'', (case u_lastLoginAt u of None \<Rightarrow> JNull | Some t \<Rightarrow> JDate t))]"
  by (simp add: sanitizeUser_def user_obj_def)

lemma sanitized_no_secret:
  "\<not> has_key ''password'' (JObj (sanitizeUser (user_obj u))) \<and>
   \<not> has_key ''openaiApiKey'' (JObj (sanitizeUser (user_obj u)))"
  by (simp add: sanitized_props split: option.splits)

lemma json_error_safe: "\<not> exposes_secret (json_error code msg)"
  by (simp add: exposes_secret_def json_error_def)

lemma user_response_safe: "\<not> exposes_secret (user_response code user)"
  using sanitized_no_secret [of user] by (simp add: exposes_secret_def user_response_def)

lemma authenticateToken_safe:
  "authenticateToken J cfg now h = Inl r \<Longrightarrow> \<not> exposes_secret r"
  by (auto simp: authenticateToken_def exposes_secret_def split: option.splits if_splits)

lemma admin_only_safe: "admin_only J cfg now req = Inl r \<Longrightarrow> \<not> exposes_secret r"
  by (auto simp: admin_only_def requireAdmin_def exposes_secret_def
      dest: authenticateToken_safe split: sum.splits if_splits)

lemma login_safe: "\<not> exposes_secret (snd (login B J cfg now st req))"
  by (simp add: login_def json_error_def exposes_secret_def sanitized_props Let_def
      split: option.splits)

lemma register_safe: "\<not> exposes_secret (snd (register B uuid now st req))"
  by (simp add: register_def json_error_def exposes_secret_def sanitized_props Let_def
      split_beta split: option.splits)

lemma admin_users_handler_safe: "\<not> exposes_secret (admin_users_handler st)"
  using sanitized_no_secret
  by (simp add: admin_users_handler_def exposes_secret_def sanitizeUsers_def list_ex_iff)

lemma admin_users_safe: "\<not> exposes_secret (snd (admin_users J cfg now st req))"
  by (simp add: admin_users_def admin_users_handler_safe admin_only_safe split: sum.splits)

lemma admin_create_user_safe:
  "\<not> exposes_secret (snd (admin_create_user B J cfg uuid now st req))"
  by (simp add: admin_create_user_def admin_create_user_handler_def admin_only_safe
      json_error_safe user_response_safe Let_def split_beta split: sum.splits option.splits)

lemma admin_update_status_safe:
  "\<not> exposes_secret (snd (admin_update_status J cfg now st req))"
  by (simp add: admin_update_status_def admin_update_status_handler_def admin_only_safe
      json_error_safe user_response_safe split: sum.splits option.splits prod.splits)

lemma admin_update_user_safe:
  "\<not> exposes_secret (snd (admin_update_user B J cfg now st req))"
  by (simp add: admin_update_user_def admin_update_user_handler_def admin_only_safe
      json_error_safe user_response_safe Let_def split: sum.splits option.splits prod.splits)

lemma auth_me_safe: "\<not> exposes_secret (snd (auth_me J cfg now st req))"
  by (simp add: auth_me_def auth_me_handler_def authenticateToken_safe
      json_error_safe user_response_safe split: sum.splits option.splits)

lemma example_login_response:
  "snd (login example_bcrypt example_jwt example_config 0 example_store
     (example_request (JObj [(''username'', JStr ''admin''), (''password'', JStr ''admin123'')]))) =
   \<lparr>res_status = 200,
    res_body = JObj
      [(''user'', JObj [(''id'', JStr ''id-1''), (''username'', JStr ''admin''),
                        (''role'', JStr ''admin''), (''status'', JStr ''approved''),
                        (''createdAt'', JDate 0), (''lastLoginAt'', JNull)]),
       (''token'', JStr example_admin_token),
       (''expiresIn'', JStr ''24h'')]\<rparr>"
  by code_simp

text \<open>
  C2: whatever the request, the store and the libraries, no response of the login,
  registration, admin user listing, admin user creation, admin status update, admin user
  update and /api/auth/me routes has, at any depth of its body, a property named
  \<^verbatim>\<open>password\<close> or \<^verbatim>\<open>openaiApiKey\<close>: every account object in it went through
  sanitizeUser.
\<close>

theorem C2_responses_sanitized:
  "\<not> exposes_secret (snd (login B J cfg now st req)) \<and>
   \<not> exposes_secret (snd (register B uuid now st req)) \<and>
   \<not> exposes_secret (snd (admin_users J cfg now st req)) \<and>
   \<not> exposes_secret (snd (admin_create_user B J cfg uuid now st req)) \<and>
   \<not> exposes_secret (snd (admin_update_status J cfg now st req)) \<and>
   \<not> exposes_secret (snd (admin_update_user B J cfg now st req)) \<and>
   \<not> exposes_secret (snd (auth_me J cfg now st req))"
  by (simp only: login_safe register_safe admin_users_safe admin_create_user_safe
      admin_update_status_safe admin_update_user_safe auth_me_safe simp_thms)

theorem C2_responses_sanitized_witness:
  "\<not> exposes_secret
      \<lparr>res_status = 200,
       res_body = JObj
         [(''user'', JObj [(''id'', JStr ''id-1''), (''username'', JStr ''admin''),
                           (''role'', JStr ''admin''), (''status'', JStr ''approved''),
                           (''createdAt'', JDate 0), (''lastLoginAt'', JNull)]),
          (''token'', JStr example_admin_token),
          (''expiresIn'', JStr ''24h'')]\<rparr>"
  using C2_responses_sanitized [THEN conjunct1,
      of example_bcrypt example_jwt example_config 0 example_store
      "example_request (JObj [(''username'', JStr ''admin''), (''password'', JStr ''admin123'')])"]
  by (simp add: example_login_response)

section \<open>Tokens and the authenticated-only gate\<close>

lemma takeWhile_ones: "takeWhile (\<lambda>c. c = CHR ''1'') (replicate n CHR ''1'' @ CHR ''.'' # r) = replicate n CHR ''1''"
  by (induction n) simp_all

lemma dropWhile_ones: "dropWhile (\<lambda>c. c = CHR ''1'') (replicate n CHR ''1'' @ CHR ''.'' # r) = CHR ''.'' # r"
  by (induction n) simp_all

lemma get_nat_put: "get_nat (put_nat n @ r) = (n, r)"
  by (simp add: get_nat_def put_nat_def takeWhile_ones dropWhile_ones)

lemma get_str_put: "get_str (put_str s @ r) = (s, r)"
  by (simp add: get_str_def put_str_def get_nat_put)

lemma get_str_put_end: "get_str (put_str s) = (s, [])"
  using get_str_put [of s "[]"] by simp

lemma example_jwt_contract: "jwt_contract example_jwt"
  by (simp add: jwt_contract_def example_jwt_def example_sign_def example_verify_def
      get_str_put get_nat_put get_str_put_end)

lemma example_jwt_timespan: "timespan example_jwt (JWT_EXPIRES_IN example_config) = Some 24"
  by (simp add: example_jwt_def example_config_def example_timespan_def)

lemma generateToken_contract:
  assumes "jwt_contract J" and "timespan J (JWT_EXPIRES_IN cfg) = Some ttl"
  shows "\<exists>token. generateToken J cfg now user = Some token \<and>
     (\<forall>t. now \<le> t \<and> t < now + ttl \<longrightarrow>
        verifyToken J cfg t token =
          Some \<lparr>p_id = u_id user, p_username = u_username user,
                p_role = u_role user, p_status = u_status user\<rparr>)"
proof -
  let ?payload = "\<lparr>p_id = u_id user, p_username = u_username user,
                p_role = u_role user, p_status = u_status user\<rparr>"
  let ?opts = "\<lparr>expiresIn = JWT_EXPIRES_IN cfg, issuer = ''sarvatra-ai'',
            audience = ''sarvatra-ai-users''\<rparr>"
  have "timespan J (expiresIn ?opts) = Some ttl" using assms(2) by simp
  with assms(1) obtain token where
    sign: "jwt_sign J ?payload (JWT_SECRET cfg) ?opts now = Some token" and
    verify: "\<forall>t. now \<le> t \<and> t < now + ttl \<longrightarrow>
       jwt_verify J token (JWT_SECRET cfg)
         \<lparr>v_issuer = issuer ?opts, v_audience = audience ?opts\<rparr> t = Inr ?payload"
    unfolding jwt_contract_def by blast
  have "generateToken J cfg now user = Some token"
    using sign by (simp add: generateToken_def)
  moreover have "\<forall>t. now \<le> t \<and> t < now + ttl \<longrightarrow> verifyToken J cfg t token = Some ?payload"
    using verify by (simp add: verifyToken_def)
  ultimately show ?thesis by blast
qed

text \<open>
  C7: a token issued for an account verifies, before its expiry and under the same
  configuration, to a payload whose id, username, role and status are the account's; and
  whenever \<^verbatim>\<open>jwt.verify\<close> throws, whatever the error, verifyToken returns \<^verbatim>\<open>null\<close>.
\<close>

theorem C7_verify_issue:
  assumes "jwt_contract J" and "timespan J (JWT_EXPIRES_IN cfg) = Some ttl"
    and "now \<le> t" and "t < now + ttl"
  shows "(\<exists>token payload.
            generateToken J cfg now user = Some token \<and>
            verifyToken J cfg t token = Some payload \<and>
            p_id payload = u_id user \<and> p_username payload = u_username user \<and>
            p_role payload = u_role user \<and> p_status payload = u_status user) \<and>
         (\<forall>tok err.
            jwt_verify J tok (JWT_SECRET cfg)
              \<lparr>v_issuer = ''sarvatra-ai'', v_audience = ''sarvatra-ai-users''\<rparr> t = Inl err
            \<longrightarrow> verifyToken J cfg t tok = None)"
proof -
  from generateToken_contract [OF assms(1,2), of now user] obtain token where
    "generateToken J cfg now user = Some token" and
    "\<forall>t. now \<le> t \<and> t < now + ttl \<longrightarrow>
        verifyToken J cfg t token =
          Some \<lparr>p_id = u_id user, p_username = u_username user,
                p_role = u_role user, p_status = u_status user\<rparr>"
    by blast
  with assms(3,4) have "\<exists>token payload.
            generateToken J cfg now user = Some token \<and>
            verifyToken J cfg t token = Some payload \<and>
            p_id payload = u_id user \<and> p_username payload = u_username user \<and>
            p_role payload = u_role user \<and> p_status payload = u_status user"
    by simp
  moreover have "\<forall>tok err.
            jwt_verify J tok (JWT_SECRET cfg)
              \<lparr>v_issuer = ''sarvatra-ai'', v_audience = ''sarvatra-ai-users''\<rparr> t = Inl err
            \<longrightarrow> verifyToken J cfg t tok = None"
    by (simp add: verifyToken_def)
  ultimately show ?thesis by (rule conjI)
qed

lemma example_garbage_token:
  "jwt_verify example_jwt ''garbage'' (JWT_SECRET example_config)
     \<lparr>v_issuer = ''sarvatra-ai'', v_audience = ''sarvatra-ai-users''\<rparr> 3 = Inl JsonWebTokenError"
  by code_simp

theorem C7_verify_issue_witness:
  "generateToken example_jwt example_config 0 example_admin = Some example_admin_token \<and>
   verifyToken example_jwt example_config 3 example_admin_token =
     Some \<lparr>p_id = ''id-1'', p_username = ''admin'', p_role = ''admin'', p_status = ''approved''\<rparr> \<and>
   verifyToken example_jwt example_config 3 ''garbage'' = None"
proof -
  have t: "(0::nat) \<le> 3" "(3::nat) < 0 + 24" by simp_all
  from C7_verify_issue [OF example_jwt_contract example_jwt_timespan t, of example_admin]
  obtain token payload where
    h: "generateToken example_jwt example_config 0 example_admin = Some token"
       "verifyToken example_jwt example_config 3 token = Some payload"
       "p_id payload = u_id example_admin" "p_username payload = u_username example_admin"
       "p_role payload = u_role example_admin" "p_status payload = u_status example_admin"
    and g: "\<forall>tok err.
            jwt_verify example_jwt tok (JWT_SECRET example_config)
              \<lparr>v_issuer = ''sarvatra-ai'', v_audience = ''sarvatra-ai-users''\<rparr> 3 = Inl err
            \<longrightarrow> verifyToken example_jwt example_config 3 tok = None"
    by (elim exE conjE)
  from h(1) have tok: "token = example_admin_token"
    by (simp add: example_admin_token_issued)
  from h(3-6) have "payload =
      \<lparr>p_id = ''id-1'', p_username = ''admin'', p_role = ''admin'', p_status = ''approved''\<rparr>"
    by (cases payload) (simp add: example_admin_def)
  moreover from g example_garbage_token
  have "verifyToken example_jwt example_config 3 ''garbage'' = None" by blast
  ultimately show ?thesis using h(2) tok by (simp add: example_admin_token_issued)
qed

text \<open>
  C6: generateToken issues a token for an account of any status; when that status is
  not \<open>approved\<close>, authenticateToken answers a request carrying the token with 403 and
  the status. More generally, every token that verifies to a payload whose status is not
  \<open>approved\<close> is answered with 403 and that status.
\<close>

theorem C6_gate_independent_of_issuance:
  assumes "jwt_contract J" and "timespan J (JWT_EXPIRES_IN cfg) = Some ttl"
  shows "(\<exists>token. generateToken J cfg now user = Some token \<and>
            (\<forall>t header. now \<le> t \<and> t < now + ttl \<and>
               extractTokenFromHeader (Some header) = Some token \<and>
               u_status user \<noteq> ''approved'' \<longrightarrow>
               authenticateToken J cfg t (Some header) =
                 Inl \<lparr>res_status = 403,
                      res_body = JObj [(''error'', JStr ''Access denied. Account is not approved.''),
                                       (''status'', JStr (u_status user))]\<rparr>)) \<and>
         (\<forall>t header tok decoded.
            extractTokenFromHeader header = Some tok \<and>
            verifyToken J cfg t tok = Some decoded \<and>
            p_status decoded \<noteq> ''approved'' \<longrightarrow>
            authenticateToken J cfg t header =
              Inl \<lparr>res_status = 403,
                   res_body = JObj [(''error'', JStr ''Access denied. Account is not approved.''),
                                    (''status'', JStr (p_status decoded))]\<rparr>)"
proof -
  have gate: "\<forall>t header tok decoded.
      extractTokenFromHeader header = Some tok \<and>
      verifyToken J cfg t tok = Some decoded \<and>
      p_status decoded \<noteq> ''approved'' \<longrightarrow>
      authenticateToken J cfg t header =
        Inl \<lparr>res_status = 403,
             res_body = JObj [(''error'', JStr ''Access denied. Account is not approved.''),
                              (''status'', JStr (p_status decoded))]\<rparr>"
    by (simp add: authenticateToken_def)
  from generateToken_contract [OF assms, of now user] obtain token where
    issued: "generateToken J cfg now user = Some token" and
    verified: "\<forall>t. now \<le> t \<and> t < now + ttl \<longrightarrow>
        verifyToken J cfg t token =
          Some \<lparr>p_id = u_id user, p_username = u_username user,
                p_role = u_role user, p_status = u_status user\<rparr>"
    by blast
  have "\<forall>t header. now \<le> t \<and> t < now + ttl \<and>
               extractTokenFromHeader (Some header) = Some token \<and>
               u_status user \<noteq> ''approved'' \<longrightarrow>
               authenticateToken J cfg t (Some header) =
                 Inl \<lparr>res_status = 403,
                      res_body = JObj [(''error'', JStr ''Access denied. Account is not approved.''),
                                       (''status'', JStr (u_status user))]\<rparr>"
    using verified by (simp add: authenticateToken_def)
  with issued gate show ?thesis by blast
qed

lemma example_bob_token_issued:
  "generateToken example_jwt example_config 0 example_bob = Some example_bob_token"
  by code_simp

lemma example_bob_header:
  "extractTokenFromHeader (Some (''Bearer '' @ example_bob_token)) = Some example_bob_token"
  by code_simp

theorem C6_gate_independent_of_issuance_witness:
  "generateToken example_jwt example_config 0 example_bob = Some example_bob_token \<and>
   authenticateToken example_jwt example_config 3 (Some (''Bearer '' @ example_bob_token)) =
     Inl \<lparr>res_status = 403,
          res_body = JObj [(''error'', JStr ''Access denied. Account is not approved.''),
                           (''status'', JStr ''pending'')]\<rparr>"
proof -
  from C6_gate_independent_of_issuance [OF example_jwt_contract example_jwt_timespan,
      of 0 example_bob]
  obtain token where
    issued: "generateToken example_jwt example_config 0 example_bob = Some token" and
    gate: "\<forall>t header. 0 \<le> t \<and> t < 0 + 24 \<and>
               extractTokenFromHeader (Some header) = Some token \<and>
               u_status example_bob \<noteq> ''approved'' \<longrightarrow>
               authenticateToken example_jwt example_config t (Some header) =
                 Inl \<lparr>res_status = 403,
                      res_body = JObj [(''error'', JStr ''Access denied. Account is not approved.''),
                                       (''status'', JStr (u_status example_bob))]\<rparr>"
    by (elim exE conjE)
  from issued have tok: "token = example_bob_token"
    by (simp add: example_bob_token_issued)
  have c1: "extractTokenFromHeader (Some (''Bearer '' @ example_bob_token)) = Some token"
    unfolding tok by (rule example_bob_header)
  have c2: "u_status example_bob \<noteq> ''approved''"
    by (simp add: example_bob_def)
  from gate [rule_format, of 3 "''Bearer '' @ example_bob_token"] c1 c2
  have "authenticateToken example_jwt example_config 3 (Some (''Bearer '' @ example_bob_token)) =
      Inl \<lparr>res_status = 403,
           res_body = JObj [(''error'', JStr ''Access denied. Account is not approved.''),
                            (''status'', JStr (u_status example_bob))]\<rparr>"
    by simp
  then have "authenticateToken example_jwt example_config 3 (Some (''Bearer '' @ example_bob_token)) =
      Inl \<lparr>res_status = 403,
           res_body = JObj [(''error'', JStr ''Access denied. Account is not approved.''),
                            (''status'', JStr ''pending'')]\<rparr>"
    by (simp add: example_bob_def)
  with example_bob_token_issued show ?thesis by (rule conjI)
qed

end
